theory Spec2Isabelle
  imports Main "HOL-Library.Sublist"
begin

section \<open>Regular expressions as \<open>re.match\<close> evaluates them\<close>

text \<open>
  The changelog validator of \<^verbatim>\<open>scripts/yaml_parser.py\<close> decides everything with
  \<^verbatim>\<open>re.match(pattern, string)\<close>. Its patterns use literal text, the classes \<^verbatim>\<open>\d\<close>, \<^verbatim>\<open>\S\<close>
  and \<^verbatim>\<open>.\<close>, grouping, alternation, \<^verbatim>\<open>*\<close>, \<^verbatim>\<open>+\<close>, \<^verbatim>\<open>{2}\<close> and a final \<^verbatim>\<open>$\<close>.
  \<^verbatim>\<open>re.match\<close> anchors at position 0 and no flag is passed, so the leading \<^verbatim>\<open>^\<close> of every
  pattern holds there and is not represented; \<^verbatim>\<open>$\<close> holds at the end of the string and just
  before a newline that ends it. Characters are the code points below 256, where \<^verbatim>\<open>\d\<close> is
  \<^verbatim>\<open>0\<close>..\<^verbatim>\<open>9\<close> and the white space of \<^verbatim>\<open>\S\<close> is the set listed in \<open>is_space\<close>.
\<close>

datatype rx =
    Lit string
  | Digit
  | NonSpace
  | AnyChar
  | Eol
  | Seq rx rx
  | Alt rx rx
  | Star rx

definition is_digit :: "char \<Rightarrow> bool" where
  "is_digit c = ((48::nat) \<le> of_char c \<and> (of_char c :: nat) \<le> 57)"

definition is_space :: "char \<Rightarrow> bool" where
  "is_space c = ((of_char c :: nat) \<in> {9, 10, 11, 12, 13, 28, 29, 30, 31, 32, 133, 160})"

text \<open>
  \<open>rests r s\<close> lists what is left of \<open>s\<close> after each way in which \<open>r\<close> can consume a prefix
  of it: the alternatives a backtracking matcher goes through. An iteration of \<^verbatim>\<open>*\<close> that
  consumes nothing is not repeated.
\<close>

fun rests :: "rx \<Rightarrow> string \<Rightarrow> string list" where
  "rests (Lit w) s = (if prefix w s then [drop (length w) s] else [])"
| "rests Digit s = (case s of [] \<Rightarrow> [] | c # t \<Rightarrow> if is_digit c then [t] else [])"
| "rests NonSpace s = (case s of [] \<Rightarrow> [] | c # t \<Rightarrow> if is_space c then [] else [t])"
| "rests AnyChar s = (case s of [] \<Rightarrow> [] | c # t \<Rightarrow> if c = CHR 0x0A then [] else [t])"
| "rests Eol s = (if s = [] \<or> s = [CHR 0x0A] then [s] else [])"
| "rests (Seq a b) s = concat (map (rests b) (rests a s))"
| "rests (Alt a b) s = rests a s @ rests b s"
| "rests (Star a) s =
     concat (map (rests (Star a)) (filter (\<lambda>t. length t < length s) (rests a s))) @ [s]"

definition re_match :: "rx \<Rightarrow> string \<Rightarrow> bool" where
  "re_match r s = (rests r s \<noteq> [])"

definition many1 :: "rx \<Rightarrow> rx" where
  "many1 r = Seq r (Star r)"

fun seqs :: "rx list \<Rightarrow> rx" where
  "seqs [] = Lit []"
| "seqs [r] = r"
| "seqs (r # rs) = Seq r (seqs rs)"

fun alts :: "string list \<Rightarrow> rx" where
  "alts [] = Lit []"
| "alts [w] = Lit w"
| "alts (w # ws) = Alt (Lit w) (alts ws)"

section \<open>The patterns of the file structure\<close>

definition major_vers_pattern :: rx where
  "major_vers_pattern = seqs [many1 Digit, Lit '':'', Eol]"

definition task_pattern :: rx where
  "task_pattern = Lit ''  - task: ''"

definition task_extended_pattern :: rx where
  "task_extended_pattern = seqs [Lit ''  - task: http'', many1 AnyChar, Eol]"

definition arch_pattern :: rx where
  "arch_pattern =
     seqs [Lit ''    arch: '', alts [''stm32'', ''avr'', ''at32''],
           Star (Seq (Lit '', '') (alts [''stm32'', ''avr'', ''at32''])), Eol]"

definition task_type_pattern :: rx where
  "task_type_pattern =
     seqs [Lit ''    '', alts [''feature'', ''bug'', ''internal'', ''info''], Lit '': |'', Eol]"

definition description_initial_pattern :: rx where
  "description_initial_pattern = seqs [Lit ''      '', NonSpace, Star AnyChar]"

definition description_pattern :: rx where
  "description_pattern = seqs [Lit ''      '', Star AnyChar]"

definition separator_pattern :: rx where
  "separator_pattern = Eol"

definition release_pattern :: rx where
  "release_pattern = seqs [Lit ''  - '', alts [''release'', ''prerelease''], Lit '': '']"

definition release_extended_pattern :: rx where
  "release_extended_pattern =
     seqs [Lit ''  - '', alts [''release'', ''prerelease''], Lit '': '', many1 Digit, Eol]"

definition date_pattern :: rx where
  "date_pattern =
     seqs [Lit ''    date: '', Digit, Digit, Lit ''.'', Digit, Digit, Lit ''.'', Digit, Digit, Eol]"

definition dependencies_pattern :: rx where
  "dependencies_pattern = seqs [Lit ''    dependencies:'', Star (Lit '' []''), Eol]"

definition base_pattern :: rx where
  "base_pattern = seqs [Lit ''    base: '', Star (many1 Digit), Eol]"

definition protocol_pattern :: rx where
  "protocol_pattern = seqs [Lit ''    protocol: '', many1 Digit, Eol]"

text \<open>The two indentation patterns written in place in the methods:
  \<^verbatim>\<open>r'^  \S'\<close> in \<^verbatim>\<open>validate_initial\<close>, \<^verbatim>\<open>r'^    \S'\<close> in \<^verbatim>\<open>parse_task\<close> and \<^verbatim>\<open>parse_release\<close>.\<close>

definition indent2_pattern :: rx where
  "indent2_pattern = seqs [Lit ''  '', NonSpace]"

definition indent4_pattern :: rx where
  "indent4_pattern = seqs [Lit ''    '', NonSpace]"

section \<open>The parser\<close>

text \<open>
  \<^verbatim>\<open>self.state\<close> is a dictionary with ten fixed keys, all Booleans; the parser object holds
  it and the number of the line being read.
\<close>

record flags =
  major_ver :: bool
  task :: bool
  arch :: bool
  type :: bool
  description :: bool
  release :: bool
  date :: bool
  dependencies :: bool
  base :: bool
  protocol :: bool

record YamlParser =
  line_number :: int
  state :: flags

text \<open>
  \<^verbatim>\<open>raise_error\<close> prints one message (the label of the input, the line number, the line
  and what was expected) and calls \<^verbatim>\<open>exit(1)\<close>: nothing of the method that raised runs after
  it. The message is the value \<open>Diagnostic\<close>; the label of the input comes from the
  environment and is left out.
\<close>

datatype diagnostic = Diagnostic (d_line_number: int) (d_line: string) (d_expected: string)

definition raise_error :: "YamlParser \<Rightarrow> string \<Rightarrow> string \<Rightarrow> diagnostic + YamlParser" where
  "raise_error self line message = Inl (Diagnostic (line_number self) line message)"

definition reset_state :: "YamlParser \<Rightarrow> YamlParser" where
  "reset_state self = self\<lparr>state :=
     \<lparr>major_ver = False, task = False, arch = False, type = False, description = False,
      release = False, date = False, dependencies = False, base = False, protocol = False\<rparr>\<rparr>"

text \<open>The parser as \<^verbatim>\<open>__init__\<close> leaves it: line number 0 and the flags of \<^verbatim>\<open>reset_state\<close>.\<close>

definition init :: YamlParser where
  "init = \<lparr>line_number = 0, state =
     \<lparr>major_ver = False, task = False, arch = False, type = False, description = False,
      release = False, date = False, dependencies = False, base = False, protocol = False\<rparr>\<rparr>"

definition reset_release_state :: "YamlParser \<Rightarrow> YamlParser" where
  "reset_release_state self = self\<lparr>state := (state self)
     \<lparr>release := False, date := False, dependencies := False, base := False,
      protocol := False, description := False, type := False\<rparr>\<rparr>"

definition set_current_line_number :: "YamlParser \<Rightarrow> int \<Rightarrow> YamlParser" where
  "set_current_line_number self number = self\<lparr>line_number := number\<rparr>"

definition validate_initial :: "YamlParser \<Rightarrow> string \<Rightarrow> diagnostic + YamlParser" where
  "validate_initial self string =
     (if \<not> re_match indent2_pattern string
      then raise_error self string ''2 spaces `  ` before {task,release}''
      else if \<not> re_match task_pattern string \<and> \<not> re_match release_pattern string
      then raise_error self string ''`  - {task,release}:`''
      else if re_match task_pattern string
      then raise_error self string ''`  - task: <link-to-task>`''
      else if re_match release_pattern string
      then raise_error self string ''`  - release: <minor-version-number>`''
      else Inr self)"

definition parse_initial :: "YamlParser \<Rightarrow> string \<Rightarrow> diagnostic + YamlParser" where
  "parse_initial self string =
     (if re_match task_extended_pattern string
      then Inr (self\<lparr>state := (state self)\<lparr>task := True\<rparr>\<rparr>)
      else if re_match release_extended_pattern string
      then Inr (self\<lparr>state := (state self)\<lparr>release := True\<rparr>\<rparr>)
      else validate_initial self string)"

definition parse_task :: "YamlParser \<Rightarrow> string \<Rightarrow> diagnostic + YamlParser" where
  "parse_task self string =
     (if \<not> re_match indent4_pattern string \<and> \<not> type (state self)
         \<and> \<not> re_match separator_pattern string
      then raise_error self string ''indent 4 spaces `    `''
      else if re_match arch_pattern string
      then Inr (self\<lparr>state := (state self)\<lparr>arch := True\<rparr>\<rparr>)
      else if \<not> arch (state self)
      then raise_error self string ''`    arch: {stm32,avr,at32}`''
      else if arch (state self) then
        (if re_match task_type_pattern string
         then Inr (self\<lparr>state := (state self)\<lparr>type := True\<rparr>\<rparr>)
         else if \<not> type (state self)
         then raise_error self string ''`    {feature,bug,internal}: |`''
         else if type (state self) then
           (if re_match separator_pattern string \<and> description (state self)
            then Inr (reset_state self)
            else if re_match description_initial_pattern string
            then Inr (self\<lparr>state := (state self)\<lparr>description := True\<rparr>\<rparr>)
            else if description (state self) \<and> re_match description_pattern string
            then Inr self
            else raise_error self string ''`      <description>`'')
         else Inr self)
      else Inr self)"

text \<open>
  In \<^verbatim>\<open>parse_release\<close> the branch of a separator after the protocol resets the release flags
  and does not return: the test of the \<^verbatim>\<open>type\<close> flag that follows reads the flags as reset.
\<close>

definition parse_release :: "YamlParser \<Rightarrow> string \<Rightarrow> diagnostic + YamlParser" where
  "parse_release self string =
     (if \<not> re_match indent4_pattern string \<and> \<not> type (state self)
         \<and> \<not> re_match separator_pattern string
      then raise_error self string ''indent 4 spaces `    `''
      else if re_match date_pattern string
      then Inr (self\<lparr>state := (state self)\<lparr>date := True\<rparr>\<rparr>)
      else if \<not> date (state self)
      then raise_error self string ''`    date: <dd.mm.yy>`''
      else if date (state self) then
        (if re_match dependencies_pattern string
         then Inr (self\<lparr>state := (state self)\<lparr>dependencies := True\<rparr>\<rparr>)
         else if re_match base_pattern string
         then Inr (self\<lparr>state := (state self)\<lparr>base := True\<rparr>\<rparr>)
         else if \<not> dependencies (state self)
         then raise_error self string ''`    dependencies:`''
         else if dependencies (state self) then
           (if re_match protocol_pattern string
            then Inr (self\<lparr>state := (state self)\<lparr>protocol := True\<rparr>\<rparr>)
            else if \<not> protocol (state self)
            then raise_error self string ''`    protocol: <number-of-protocol>`''
            else if protocol (state self) then
              (if re_match task_type_pattern string
               then Inr (self\<lparr>state := (state self)\<lparr>type := True\<rparr>\<rparr>)
               else
                 (let self1 = (if re_match separator_pattern string
                               then reset_release_state self else self)
                  in if type (state self1) then
                       (if re_match separator_pattern string \<and> description (state self1)
                        then Inr (reset_release_state self1)
                        else if re_match description_initial_pattern string
                        then Inr (self1\<lparr>state := (state self1)\<lparr>description := True\<rparr>\<rparr>)
                        else if description (state self1) \<and> re_match description_pattern string
                        then Inr self1
                        else raise_error self1 string ''`      <description>`'')
                     else Inr self1))
            else Inr self)
         else Inr self)
      else Inr self)"

definition parse_line :: "YamlParser \<Rightarrow> string \<Rightarrow> diagnostic + YamlParser" where
  "parse_line self string =
     (if re_match major_vers_pattern string
      then Inr (self\<lparr>state := (state self)\<lparr>major_ver := True\<rparr>\<rparr>)
      else if \<not> task (state self) \<and> \<not> release (state self)
      then parse_initial self string
      else if task (state self)
      then parse_task self string
      else if release (state self)
      then parse_release self string
      else Inr self)"

section \<open>The run over the input\<close>

text \<open>
  \<^verbatim>\<open>parse_yaml\<close> holds the loop that drives a parser: it reads the lines of the standard
  input one by one with \<^verbatim>\<open>input()\<close>, numbers them from 1 with \<^verbatim>\<open>set_current_line_number\<close> and
  gives each to \<^verbatim>\<open>parse_line\<close>; a diagnostic ends the loop. \<^verbatim>\<open>read_lines\<close> is this loop, for a
  parser object and the list of the lines that the input holds; the end of the list is the
  end of the input. The theorems below run it on \<^verbatim>\<open>init\<close>, the object that \<^verbatim>\<open>YamlParser()\<close>
  makes. The first statement of \<^verbatim>\<open>parse_yaml\<close>, \<^verbatim>\<open>parser = ModemYamlParser()\<close>, names a class
  that the module neither defines nor imports, so a call of \<^verbatim>\<open>parse_yaml\<close> itself stops there
  with a \<^verbatim>\<open>NameError\<close>, before the loop; nothing below is stated of that call.
\<close>

fun read_lines :: "YamlParser \<Rightarrow> int \<Rightarrow> string list \<Rightarrow> diagnostic + YamlParser" where
  "read_lines parser enumerator [] = Inr parser"
| "read_lines parser enumerator (line # rest) =
     (case parse_line (set_current_line_number parser (enumerator + 1)) line of
        Inl d \<Rightarrow> Inl d
      | Inr parser1 \<Rightarrow> read_lines parser1 (enumerator + 1) rest)"

text \<open>The three modes of the parser, read from the two flags that \<^verbatim>\<open>parse_line\<close> tests.\<close>

definition undetermined :: "YamlParser \<Rightarrow> bool" where
  "undetermined self = (\<not> task (state self) \<and> \<not> release (state self))"

definition in_task :: "YamlParser \<Rightarrow> bool" where
  "in_task self = (task (state self) \<and> \<not> release (state self))"

definition in_release :: "YamlParser \<Rightarrow> bool" where
  "in_release self = (release (state self) \<and> \<not> task (state self))"

section \<open>What a matching line looks like\<close>

text \<open>
  The equation of \<^verbatim>\<open>*\<close> unfolds for ever on a string that is not given; it is applied by
  hand where it is needed.
\<close>

declare rests.simps(8) [simp del]

lemma rests_Star_nonempty [simp]: "rests (Star a) s \<noteq> []"
  by (subst rests.simps(8)) simp

lemma re_match_Lit [simp]: "re_match (Lit w) s = prefix w s"
  by (simp add: re_match_def)

lemma rests_Seq_Lit [simp]:
  "rests (Seq (Lit w) r) s = (if prefix w s then rests r (drop (length w) s) else [])"
  by simp

lemma major_shape: "re_match major_vers_pattern s \<Longrightarrow> \<exists>c t. s = c # t \<and> is_digit c"
  by (cases s) (auto simp: re_match_def major_vers_pattern_def many1_def split: if_splits)

lemma not_digit_space: "\<not> is_digit (CHR '' '')"
  by (simp add: is_digit_def)

lemma major_not_space: "prefix '' '' s \<Longrightarrow> \<not> re_match major_vers_pattern s"
  using major_shape [of s] not_digit_space by (auto simp: prefix_def)

lemma separator_iff: "re_match separator_pattern s \<longleftrightarrow> s = [] \<or> s = [CHR 0x0A]"
  by (simp add: re_match_def separator_pattern_def)

lemma major_not_blank: "re_match separator_pattern s \<Longrightarrow> \<not> re_match major_vers_pattern s"
  using major_shape [of s] by (auto simp: separator_iff is_digit_def)

lemma task_extended_prefix: "re_match task_extended_pattern s \<Longrightarrow> prefix ''  - task: http'' s"
  by (simp add: re_match_def task_extended_pattern_def split: if_splits)

lemma arch_prefix: "re_match arch_pattern s \<Longrightarrow> prefix ''    arch: '' s"
  by (simp add: re_match_def arch_pattern_def split: if_splits)

lemma date_prefix: "re_match date_pattern s \<Longrightarrow> prefix ''    date: '' s"
  by (simp add: re_match_def date_pattern_def split: if_splits)

lemma dependencies_prefix: "re_match dependencies_pattern s \<Longrightarrow> prefix ''    dependencies:'' s"
  by (simp add: re_match_def dependencies_pattern_def split: if_splits)

lemma base_prefix: "re_match base_pattern s \<Longrightarrow> prefix ''    base: '' s"
  by (simp add: re_match_def base_pattern_def split: if_splits)

lemma protocol_prefix: "re_match protocol_pattern s \<Longrightarrow> prefix ''    protocol: '' s"
  by (simp add: re_match_def protocol_pattern_def split: if_splits)

lemma description_iff: "re_match description_pattern s \<longleftrightarrow> prefix ''      '' s"
  by (simp add: re_match_def description_pattern_def)

lemma task_type_cases:
  "re_match task_type_pattern s \<Longrightarrow>
     prefix ''    feature: |'' s \<or> prefix ''    bug: |'' s \<or> prefix ''    internal: |'' s
       \<or> prefix ''    info: |'' s"
proof -
  assume a: "re_match task_type_pattern s"
  then have "prefix ''    '' s"
    by (simp add: re_match_def task_type_pattern_def split: if_splits)
  then obtain u where u: "s = ''    '' @ u" by (auto simp: prefix_def)
  from a u have "prefix ''feature: |'' u \<or> prefix ''bug: |'' u \<or> prefix ''internal: |'' u
      \<or> prefix ''info: |'' u"
    apply (simp add: re_match_def task_type_pattern_def split: if_splits)
    apply (auto simp: prefix_def)
    done
  with u show ?thesis by auto
qed

lemma release_cases:
  "re_match release_pattern s \<Longrightarrow> prefix ''  - release: '' s \<or> prefix ''  - prerelease: '' s"
proof -
  assume a: "re_match release_pattern s"
  then have "prefix ''  - '' s"
    by (simp add: re_match_def release_pattern_def split: if_splits)
  then obtain u where u: "s = ''  - '' @ u" by (auto simp: prefix_def)
  from a have "prefix ''release: '' u \<or> prefix ''prerelease: '' u"
    unfolding u
    apply (simp add: re_match_def release_pattern_def split: if_splits)
    apply (auto simp: prefix_def)
    done
  then show ?thesis unfolding u by auto
qed

lemma release_extended_cases:
  "re_match release_extended_pattern s \<Longrightarrow>
     prefix ''  - release: '' s \<or> prefix ''  - prerelease: '' s"
proof -
  assume a: "re_match release_extended_pattern s"
  then have "prefix ''  - '' s"
    by (simp add: re_match_def release_extended_pattern_def split: if_splits)
  then obtain u where u: "s = ''  - '' @ u" by (auto simp: prefix_def)
  from a have "prefix ''release: '' u \<or> prefix ''prerelease: '' u"
    unfolding u
    apply (simp add: re_match_def release_extended_pattern_def split: if_splits)
    apply (auto simp: prefix_def)
    done
  then show ?thesis unfolding u by auto
qed

lemma description_initial_iff:
  "re_match description_initial_pattern s \<longleftrightarrow>
     (\<exists>c t. s = ''      '' @ c # t \<and> \<not> is_space c)"
proof
  assume a: "re_match description_initial_pattern s"
  then have "prefix ''      '' s"
    by (simp add: re_match_def description_initial_pattern_def split: if_splits)
  then obtain u where u: "s = ''      '' @ u" by (auto simp: prefix_def)
  from a have "rests NonSpace u \<noteq> []"
    unfolding u by (auto simp: re_match_def description_initial_pattern_def)
  then show "\<exists>c t. s = ''      '' @ c # t \<and> \<not> is_space c"
    unfolding u by (cases u) (auto split: if_splits)
next
  assume "\<exists>c t. s = ''      '' @ c # t \<and> \<not> is_space c"
  then obtain c t where s: "s = ''      '' @ c # t" and c: "\<not> is_space c" by blast
  show "re_match description_initial_pattern s"
    unfolding s using c by (simp add: re_match_def description_initial_pattern_def)
qed

lemma indent4_iff:
  "re_match indent4_pattern s \<longleftrightarrow> (\<exists>c t. s = ''    '' @ c # t \<and> \<not> is_space c)"
proof
  assume a: "re_match indent4_pattern s"
  then have "prefix ''    '' s"
    by (simp add: re_match_def indent4_pattern_def split: if_splits)
  then obtain u where u: "s = ''    '' @ u" by (auto simp: prefix_def)
  from a have "rests NonSpace u \<noteq> []"
    unfolding u by (auto simp: re_match_def indent4_pattern_def)
  then show "\<exists>c t. s = ''    '' @ c # t \<and> \<not> is_space c"
    unfolding u by (cases u) (auto split: if_splits)
next
  assume "\<exists>c t. s = ''    '' @ c # t \<and> \<not> is_space c"
  then obtain c t where s: "s = ''    '' @ c # t" and c: "\<not> is_space c" by blast
  show "re_match indent4_pattern s"
    unfolding s using c by (simp add: re_match_def indent4_pattern_def)
qed

lemma indent2_iff:
  "re_match indent2_pattern s \<longleftrightarrow> (\<exists>c t. s = ''  '' @ c # t \<and> \<not> is_space c)"
proof
  assume a: "re_match indent2_pattern s"
  then have "prefix ''  '' s"
    by (simp add: re_match_def indent2_pattern_def split: if_splits)
  then obtain u where u: "s = ''  '' @ u" by (auto simp: prefix_def)
  from a have "rests NonSpace u \<noteq> []"
    unfolding u by (auto simp: re_match_def indent2_pattern_def)
  then show "\<exists>c t. s = ''  '' @ c # t \<and> \<not> is_space c"
    unfolding u by (cases u) (auto split: if_splits)
next
  assume "\<exists>c t. s = ''  '' @ c # t \<and> \<not> is_space c"
  then obtain c t where s: "s = ''  '' @ c # t" and c: "\<not> is_space c" by blast
  show "re_match indent2_pattern s"
    unfolding s using c by (simp add: re_match_def indent2_pattern_def)
qed

section \<open>Lines of one kind match no pattern of another kind\<close>

lemma prefixE: "prefix w s \<Longrightarrow> (\<And>u. s = w @ u \<Longrightarrow> P) \<Longrightarrow> P"
  by (auto simp: prefix_def)

lemma arch_line:
  assumes "re_match arch_pattern s"
  shows "\<not> re_match major_vers_pattern s" and "re_match indent4_pattern s"
proof -
  from assms obtain u where u: "s = ''    arch: '' @ u"
    using arch_prefix prefixE by blast
  show "\<not> re_match major_vers_pattern s"
    unfolding u by (simp add: major_not_space)
  show "re_match indent4_pattern s"
    unfolding u by (simp add: indent4_iff is_space_def)
qed

lemma date_line:
  assumes "re_match date_pattern s"
  shows "\<not> re_match major_vers_pattern s" and "re_match indent4_pattern s"
proof -
  from assms obtain u where u: "s = ''    date: '' @ u"
    using date_prefix prefixE by blast
  show "\<not> re_match major_vers_pattern s"
    unfolding u by (simp add: major_not_space)
  show "re_match indent4_pattern s"
    unfolding u by (simp add: indent4_iff is_space_def)
qed

lemma dependencies_line:
  assumes "re_match dependencies_pattern s"
  shows "\<not> re_match major_vers_pattern s" and "re_match indent4_pattern s"
    and "\<not> re_match date_pattern s"
proof -
  from assms obtain u where u: "s = ''    dependencies:'' @ u"
    using dependencies_prefix prefixE by blast
  show "\<not> re_match major_vers_pattern s"
    unfolding u by (simp add: major_not_space)
  show "re_match indent4_pattern s"
    unfolding u by (simp add: indent4_iff is_space_def)
  show "\<not> re_match date_pattern s"
    using date_prefix [of s] unfolding u by auto
qed

lemma base_line:
  assumes "re_match base_pattern s"
  shows "\<not> re_match major_vers_pattern s" and "re_match indent4_pattern s"
    and "\<not> re_match date_pattern s" and "\<not> re_match dependencies_pattern s"
proof -
  from assms obtain u where u: "s = ''    base: '' @ u"
    using base_prefix prefixE by blast
  show "\<not> re_match major_vers_pattern s"
    unfolding u by (simp add: major_not_space)
  show "re_match indent4_pattern s"
    unfolding u by (simp add: indent4_iff is_space_def)
  show "\<not> re_match date_pattern s"
    using date_prefix [of s] unfolding u by auto
  show "\<not> re_match dependencies_pattern s"
    using dependencies_prefix [of s] unfolding u by auto
qed

lemma protocol_line:
  assumes "re_match protocol_pattern s"
  shows "\<not> re_match major_vers_pattern s" and "re_match indent4_pattern s"
    and "\<not> re_match date_pattern s" and "\<not> re_match dependencies_pattern s"
    and "\<not> re_match base_pattern s"
proof -
  from assms obtain u where u: "s = ''    protocol: '' @ u"
    using protocol_prefix prefixE by blast
  show "\<not> re_match major_vers_pattern s"
    unfolding u by (simp add: major_not_space)
  show "re_match indent4_pattern s"
    unfolding u by (simp add: indent4_iff is_space_def)
  show "\<not> re_match date_pattern s"
    using date_prefix [of s] unfolding u by auto
  show "\<not> re_match dependencies_pattern s"
    using dependencies_prefix [of s] unfolding u by auto
  show "\<not> re_match base_pattern s"
    using base_prefix [of s] unfolding u by auto
qed

lemma description_line:
  assumes "re_match description_pattern s"
  shows "\<not> re_match major_vers_pattern s" and "\<not> re_match separator_pattern s"
    and "\<not> re_match arch_pattern s" and "\<not> re_match task_type_pattern s"
    and "\<not> re_match date_pattern s" and "\<not> re_match dependencies_pattern s"
    and "\<not> re_match base_pattern s" and "\<not> re_match protocol_pattern s"
proof -
  from assms obtain u where u: "s = ''      '' @ u"
    using description_iff prefixE by blast
  show "\<not> re_match major_vers_pattern s"
    unfolding u by (simp add: major_not_space)
  show "\<not> re_match separator_pattern s"
    unfolding u by (simp add: separator_iff)
  show "\<not> re_match arch_pattern s"
    using arch_prefix [of s] unfolding u by auto
  show "\<not> re_match task_type_pattern s"
    using task_type_cases [of s] unfolding u by auto
  show "\<not> re_match date_pattern s"
    using date_prefix [of s] unfolding u by auto
  show "\<not> re_match dependencies_pattern s"
    using dependencies_prefix [of s] unfolding u by auto
  show "\<not> re_match base_pattern s"
    using base_prefix [of s] unfolding u by auto
  show "\<not> re_match protocol_pattern s"
    using protocol_prefix [of s] unfolding u by auto
qed

lemma description_initial_line:
  "re_match description_initial_pattern s \<Longrightarrow> re_match description_pattern s"
  by (auto simp: description_initial_iff description_iff)

lemma separator_line:
  assumes "re_match separator_pattern s"
  shows "\<not> re_match major_vers_pattern s" and "\<not> re_match indent4_pattern s"
    and "\<not> re_match arch_pattern s" and "\<not> re_match task_type_pattern s"
    and "\<not> re_match date_pattern s" and "\<not> re_match dependencies_pattern s"
    and "\<not> re_match base_pattern s" and "\<not> re_match protocol_pattern s"
    and "\<not> re_match description_initial_pattern s" and "\<not> re_match description_pattern s"
proof -
  from assms have u: "s = [] \<or> s = [CHR 0x0A]" by (simp add: separator_iff)
  show "\<not> re_match major_vers_pattern s"
    using assms by (rule major_not_blank)
  show "\<not> re_match indent4_pattern s"
    using u by (auto simp: indent4_iff)
  show "\<not> re_match arch_pattern s"
    using arch_prefix [of s] u by auto
  show "\<not> re_match task_type_pattern s"
    using task_type_cases [of s] u by auto
  show "\<not> re_match date_pattern s"
    using date_prefix [of s] u by auto
  show "\<not> re_match dependencies_pattern s"
    using dependencies_prefix [of s] u by auto
  show "\<not> re_match base_pattern s"
    using base_prefix [of s] u by auto
  show "\<not> re_match protocol_pattern s"
    using protocol_prefix [of s] u by auto
  show "\<not> re_match description_pattern s"
    using u by (auto simp: description_iff)
  then show "\<not> re_match description_initial_pattern s"
    using description_initial_iff description_iff by (auto simp: prefix_def)
qed

lemma task_type_line:
  assumes "re_match task_type_pattern s"
  shows "\<not> re_match major_vers_pattern s" and "re_match indent4_pattern s"
    and "\<not> re_match arch_pattern s"
    and "\<not> re_match date_pattern s" and "\<not> re_match dependencies_pattern s"
    and "\<not> re_match base_pattern s" and "\<not> re_match protocol_pattern s"
proof -
  from task_type_cases [OF assms]
  have "\<exists>w u. s = w @ u \<and> (w = ''    feature: |'' \<or> w = ''    bug: |''
      \<or> w = ''    internal: |'' \<or> w = ''    info: |'')"
    unfolding prefix_def by blast
  then obtain w u where u: "s = w @ u"
    and w: "w = ''    feature: |'' \<or> w = ''    bug: |'' \<or> w = ''    internal: |''
      \<or> w = ''    info: |''"
    by blast
  show "\<not> re_match major_vers_pattern s"
    using w unfolding u by (auto simp: major_not_space)
  show "re_match indent4_pattern s"
    using w unfolding u by (auto simp: indent4_iff is_space_def)
  show "\<not> re_match arch_pattern s"
    using arch_prefix [of s] w unfolding u by auto
  show "\<not> re_match date_pattern s"
    using date_prefix [of s] w unfolding u by auto
  show "\<not> re_match dependencies_pattern s"
    using dependencies_prefix [of s] w unfolding u by auto
  show "\<not> re_match base_pattern s"
    using base_prefix [of s] w unfolding u by auto
  show "\<not> re_match protocol_pattern s"
    using protocol_prefix [of s] w unfolding u by auto
qed

lemma task_extended_line:
  assumes "re_match task_extended_pattern s"
  shows "\<not> re_match major_vers_pattern s"
proof -
  from assms obtain u where u: "s = ''  - task: http'' @ u"
    using task_extended_prefix prefixE by blast
  show "\<not> re_match major_vers_pattern s"
    unfolding u by (simp add: major_not_space)
qed

lemma release_extended_line:
  assumes "re_match release_extended_pattern s"
  shows "\<not> re_match major_vers_pattern s" and "\<not> re_match task_extended_pattern s"
proof -
  from release_extended_cases [OF assms]
  have "\<exists>w u. s = w @ u \<and> (w = ''  - release: '' \<or> w = ''  - prerelease: '')"
    unfolding prefix_def by blast
  then obtain w u where u: "s = w @ u" and w: "w = ''  - release: '' \<or> w = ''  - prerelease: ''"
    by blast
  show "\<not> re_match major_vers_pattern s"
    using w unfolding u by (auto simp: major_not_space)
  show "\<not> re_match task_extended_pattern s"
    using task_extended_prefix [of s] w unfolding u by auto
qed

lemma task_like_line:
  assumes "re_match task_pattern s"
  shows "\<not> re_match major_vers_pattern s" and "\<not> re_match release_extended_pattern s"
    and "\<not> re_match release_pattern s" and "re_match indent2_pattern s"
proof -
  from assms obtain u where u: "s = ''  - task: '' @ u"
    unfolding task_pattern_def re_match_Lit by (rule prefixE)
  show "\<not> re_match major_vers_pattern s"
    unfolding u by (simp add: major_not_space)
  show "\<not> re_match release_extended_pattern s"
    using release_extended_cases [of s] unfolding u by auto
  show "\<not> re_match release_pattern s"
    using release_cases [of s] unfolding u by auto
  show "re_match indent2_pattern s"
    unfolding u by (simp add: indent2_iff is_space_def)
qed

section \<open>What each kind of line does in each state\<close>

lemma flag_idem:
  "arch f \<Longrightarrow> f\<lparr>arch := True\<rparr> = f"
  "type f \<Longrightarrow> f\<lparr>type := True\<rparr> = f"
  "description f \<Longrightarrow> f\<lparr>description := True\<rparr> = f"
  "date f \<Longrightarrow> f\<lparr>date := True\<rparr> = f"
  "dependencies f \<Longrightarrow> f\<lparr>dependencies := True\<rparr> = f"
  "base f \<Longrightarrow> f\<lparr>base := True\<rparr> = f"
  "protocol f \<Longrightarrow> f\<lparr>protocol := True\<rparr> = f"
  "major_ver f \<Longrightarrow> f\<lparr>major_ver := True\<rparr> = f"
  for f :: flags
  by simp_all

lemma state_idem [simp]: "p\<lparr>state := state p\<rparr> = p" for p :: YamlParser
  by simp

lemma parse_line_major:
  "re_match major_vers_pattern s \<Longrightarrow>
   parse_line p s = Inr (p\<lparr>state := (state p)\<lparr>major_ver := True\<rparr>\<rparr>)"
  by (simp add: parse_line_def)

lemma parse_line_task_decl:
  "\<not> task (state p) \<Longrightarrow> \<not> release (state p) \<Longrightarrow> re_match task_extended_pattern s \<Longrightarrow>
   parse_line p s = Inr (p\<lparr>state := (state p)\<lparr>task := True\<rparr>\<rparr>)"
  by (simp add: parse_line_def parse_initial_def task_extended_line)

lemma parse_line_release_decl:
  "\<not> task (state p) \<Longrightarrow> \<not> release (state p) \<Longrightarrow> re_match release_extended_pattern s \<Longrightarrow>
   parse_line p s = Inr (p\<lparr>state := (state p)\<lparr>release := True\<rparr>\<rparr>)"
  by (simp add: parse_line_def parse_initial_def release_extended_line)

lemma task_arch:
  "task (state p) \<Longrightarrow> re_match arch_pattern s \<Longrightarrow>
   parse_line p s = Inr (p\<lparr>state := (state p)\<lparr>arch := True\<rparr>\<rparr>)"
  by (simp add: parse_line_def parse_task_def arch_line)

lemma task_type:
  "task (state p) \<Longrightarrow> arch (state p) \<Longrightarrow> re_match task_type_pattern s \<Longrightarrow>
   parse_line p s = Inr (p\<lparr>state := (state p)\<lparr>type := True\<rparr>\<rparr>)"
  by (simp add: parse_line_def parse_task_def task_type_line)

lemma task_description_initial:
  "task (state p) \<Longrightarrow> arch (state p) \<Longrightarrow> type (state p) \<Longrightarrow>
   re_match description_initial_pattern s \<Longrightarrow>
   parse_line p s = Inr (p\<lparr>state := (state p)\<lparr>description := True\<rparr>\<rparr>)"
  by (simp add: parse_line_def parse_task_def description_line description_initial_line)

lemma task_description:
  "task (state p) \<Longrightarrow> arch (state p) \<Longrightarrow> type (state p) \<Longrightarrow> description (state p) \<Longrightarrow>
   re_match description_pattern s \<Longrightarrow> parse_line p s = Inr p"
  by (simp add: parse_line_def parse_task_def description_line flag_idem)

lemma task_separator:
  "task (state p) \<Longrightarrow> arch (state p) \<Longrightarrow> type (state p) \<Longrightarrow> description (state p) \<Longrightarrow>
   re_match separator_pattern s \<Longrightarrow> parse_line p s = Inr (reset_state p)"
  by (simp add: parse_line_def parse_task_def separator_line)

lemma release_date:
  "release (state p) \<Longrightarrow> \<not> task (state p) \<Longrightarrow> re_match date_pattern s \<Longrightarrow>
   parse_line p s = Inr (p\<lparr>state := (state p)\<lparr>date := True\<rparr>\<rparr>)"
  by (simp add: parse_line_def parse_release_def date_line)

lemma release_dependencies:
  "release (state p) \<Longrightarrow> \<not> task (state p) \<Longrightarrow> date (state p) \<Longrightarrow>
   re_match dependencies_pattern s \<Longrightarrow>
   parse_line p s = Inr (p\<lparr>state := (state p)\<lparr>dependencies := True\<rparr>\<rparr>)"
  by (simp add: parse_line_def parse_release_def dependencies_line)

lemma release_base:
  "release (state p) \<Longrightarrow> \<not> task (state p) \<Longrightarrow> date (state p) \<Longrightarrow>
   re_match base_pattern s \<Longrightarrow>
   parse_line p s = Inr (p\<lparr>state := (state p)\<lparr>base := True\<rparr>\<rparr>)"
  by (simp add: parse_line_def parse_release_def base_line)

lemma release_protocol:
  "release (state p) \<Longrightarrow> \<not> task (state p) \<Longrightarrow> date (state p) \<Longrightarrow> dependencies (state p) \<Longrightarrow>
   re_match protocol_pattern s \<Longrightarrow>
   parse_line p s = Inr (p\<lparr>state := (state p)\<lparr>protocol := True\<rparr>\<rparr>)"
  by (simp add: parse_line_def parse_release_def protocol_line)

lemma release_type:
  "release (state p) \<Longrightarrow> \<not> task (state p) \<Longrightarrow> date (state p) \<Longrightarrow> dependencies (state p) \<Longrightarrow>
   protocol (state p) \<Longrightarrow> re_match task_type_pattern s \<Longrightarrow>
   parse_line p s = Inr (p\<lparr>state := (state p)\<lparr>type := True\<rparr>\<rparr>)"
  by (simp add: parse_line_def parse_release_def task_type_line)

lemma release_separator:
  "release (state p) \<Longrightarrow> \<not> task (state p) \<Longrightarrow> date (state p) \<Longrightarrow> dependencies (state p) \<Longrightarrow>
   protocol (state p) \<Longrightarrow> re_match separator_pattern s \<Longrightarrow>
   parse_line p s = Inr (reset_release_state p)"
  by (simp add: parse_line_def parse_release_def separator_line reset_release_state_def)

lemma release_description_initial:
  "release (state p) \<Longrightarrow> \<not> task (state p) \<Longrightarrow> date (state p) \<Longrightarrow> dependencies (state p) \<Longrightarrow>
   protocol (state p) \<Longrightarrow> type (state p) \<Longrightarrow> re_match description_initial_pattern s \<Longrightarrow>
   parse_line p s = Inr (p\<lparr>state := (state p)\<lparr>description := True\<rparr>\<rparr>)"
  by (simp add: parse_line_def parse_release_def description_line description_initial_line)

lemma release_description:
  "release (state p) \<Longrightarrow> \<not> task (state p) \<Longrightarrow> date (state p) \<Longrightarrow> dependencies (state p) \<Longrightarrow>
   protocol (state p) \<Longrightarrow> type (state p) \<Longrightarrow> description (state p) \<Longrightarrow>
   re_match description_pattern s \<Longrightarrow> parse_line p s = Inr p"
  by (simp add: parse_line_def parse_release_def description_line)

section \<open>The run: line numbers, diagnostics and modes\<close>

lemma state_set_current_line_number [simp]:
  "state (set_current_line_number p k) = state p"
  by (simp add: set_current_line_number_def)

lemma line_number_set_current_line_number [simp]:
  "line_number (set_current_line_number p k) = k"
  by (simp add: set_current_line_number_def)

lemma read_lines_append:
  "read_lines p n (xs @ ys) =
     (case read_lines p n xs of Inl d \<Rightarrow> Inl d
      | Inr q \<Rightarrow> read_lines q (n + int (length xs)) ys)"
  by (induction xs arbitrary: p n) (auto split: sum.splits simp: algebra_simps)

lemma parse_line_keeps_line_number:
  "parse_line p s = Inr q \<Longrightarrow> line_number q = line_number p"
  by (auto simp: parse_line_def parse_initial_def validate_initial_def parse_task_def
      parse_release_def raise_error_def reset_state_def reset_release_state_def Let_def
      split: if_splits)

lemma parse_line_diagnostic:
  "parse_line p s = Inl d \<Longrightarrow> d_line_number d = line_number p \<and> d_line d = s"
  by (auto simp: parse_line_def parse_initial_def validate_initial_def parse_task_def
      parse_release_def raise_error_def reset_state_def reset_release_state_def Let_def
      split: if_splits)

lemma parse_line_modes:
  "parse_line p s = Inr q \<Longrightarrow> \<not> (task (state p) \<and> release (state p)) \<Longrightarrow>
   \<not> (task (state q) \<and> release (state q))"
  by (auto simp: parse_line_def parse_initial_def validate_initial_def parse_task_def
      parse_release_def raise_error_def reset_state_def reset_release_state_def Let_def
      split: if_splits)

lemma read_lines_modes:
  "read_lines p n ls = Inr q \<Longrightarrow> \<not> (task (state p) \<and> release (state p)) \<Longrightarrow>
   \<not> (task (state q) \<and> release (state q))"
proof (induction ls arbitrary: p n)
  case Nil
  then show ?case by simp
next
  case (Cons l ls)
  from Cons.prems(1) obtain r where
    r: "parse_line (set_current_line_number p (n + 1)) l = Inr r"
    and q: "read_lines r (n + 1) ls = Inr q"
    by (auto split: sum.splits)
  from parse_line_modes [OF r] Cons.prems(2)
  have "\<not> (task (state r) \<and> release (state r))" by simp
  with Cons.IH [OF q] show ?case by simp
qed

lemma read_lines_diagnostic:
  "read_lines p n ls = Inl d \<Longrightarrow>
   n < d_line_number d \<and> d_line_number d \<le> n + int (length ls)
     \<and> d_line d = ls ! nat (d_line_number d - n - 1)"
proof (induction ls arbitrary: p n)
  case Nil
  then show ?case by simp
next
  case (Cons l ls)
  show ?case
  proof (cases "parse_line (set_current_line_number p (n + 1)) l")
    case (Inl e)
    with Cons.prems have "e = d" by simp
    with parse_line_diagnostic [OF Inl] show ?thesis by simp
  next
    case (Inr r)
    with Cons.prems have "read_lines r (n + 1) ls = Inl d" by simp
    from Cons.IH [OF this]
    have a: "n + 1 < d_line_number d" and b: "d_line_number d \<le> n + 1 + int (length ls)"
      and c: "d_line d = ls ! nat (d_line_number d - (n + 1) - 1)" by auto
    from a have "nat (d_line_number d - n - 1) = Suc (nat (d_line_number d - (n + 1) - 1))"
      by linarith
    with a b c show ?thesis by simp
  qed
qed

section \<open>Whole blocks\<close>

lemma task_description_lines:
  "task (state p) \<Longrightarrow> arch (state p) \<Longrightarrow> type (state p) \<Longrightarrow> description (state p) \<Longrightarrow>
   \<forall>d\<in>set ds. re_match description_pattern d \<Longrightarrow>
   \<exists>q. read_lines p n ds = Inr q \<and> state q = state p"
proof (induction ds arbitrary: p n)
  case Nil
  then show ?case by simp
next
  case (Cons d ds)
  let ?p = "set_current_line_number p (n + 1)"
  from Cons.prems have "parse_line ?p d = Inr ?p"
    by (simp add: task_description)
  moreover from Cons.prems Cons.IH [of ?p "n + 1"]
  have "\<exists>q. read_lines ?p (n + 1) ds = Inr q \<and> state q = state ?p" by simp
  ultimately show ?case by simp
qed

lemma task_block:
  assumes u: "undetermined p"
    and l1: "re_match task_extended_pattern decl" and l2: "re_match arch_pattern a"
    and l3: "re_match task_type_pattern t" and l4: "re_match description_initial_pattern d0"
    and l5: "\<forall>d\<in>set ds. re_match description_pattern d"
    and l6: "re_match separator_pattern b"
  shows "\<exists>q. read_lines p n (decl # a # t # d0 # ds @ [b]) = Inr q
    \<and> state q = state (reset_state p)"
proof -
  let ?f1 = "(state p)\<lparr>task := True\<rparr>"
  let ?p1 = "(set_current_line_number p (n + 1))\<lparr>state := ?f1\<rparr>"
  let ?p2 = "(set_current_line_number ?p1 (n + 2))\<lparr>state := ?f1\<lparr>arch := True\<rparr>\<rparr>"
  let ?p3 = "(set_current_line_number ?p2 (n + 3))\<lparr>state := ?f1\<lparr>arch := True, type := True\<rparr>\<rparr>"
  let ?p4 = "(set_current_line_number ?p3 (n + 4))
      \<lparr>state := ?f1\<lparr>arch := True, type := True, description := True\<rparr>\<rparr>"
  from u l1 have s1: "parse_line (set_current_line_number p (n + 1)) decl = Inr ?p1"
    by (simp add: parse_line_task_decl undetermined_def)
  from l2 have s2: "parse_line (set_current_line_number ?p1 (n + 2)) a = Inr ?p2"
    by (simp add: task_arch)
  from l3 have s3: "parse_line (set_current_line_number ?p2 (n + 3)) t = Inr ?p3"
    by (simp add: task_type)
  from l4 have s4: "parse_line (set_current_line_number ?p3 (n + 4)) d0 = Inr ?p4"
    by (simp add: task_description_initial)
  from l5 task_description_lines [of ?p4 ds "n + 4"]
  obtain q where q: "read_lines ?p4 (n + 4) ds = Inr q" and sq: "state q = state ?p4"
    by auto
  let ?k = "n + 4 + int (length ds) + 1"
  from l6 sq have s5: "parse_line (set_current_line_number q ?k) b
      = Inr (reset_state (set_current_line_number q ?k))"
    by (simp add: task_separator)
  have "read_lines p n (decl # a # t # d0 # ds @ [b])
      = read_lines ?p4 (n + 4) (ds @ [b])"
    using s1 s2 s3 s4 by (simp add: algebra_simps)
  also have "\<dots> = Inr (reset_state (set_current_line_number q ?k))"
    using q s5 by (simp add: read_lines_append)
  finally show ?thesis by (auto simp: reset_state_def)
qed

lemma release_description_lines:
  "release (state p) \<Longrightarrow> \<not> task (state p) \<Longrightarrow> date (state p) \<Longrightarrow> dependencies (state p) \<Longrightarrow>
   protocol (state p) \<Longrightarrow> type (state p) \<Longrightarrow> description (state p) \<Longrightarrow>
   \<forall>d\<in>set ds. re_match description_pattern d \<Longrightarrow>
   \<exists>q. read_lines p n ds = Inr q \<and> state q = state p"
proof (induction ds arbitrary: p n)
  case Nil
  then show ?case by simp
next
  case (Cons d ds)
  let ?p = "set_current_line_number p (n + 1)"
  from Cons.prems have "parse_line ?p d = Inr ?p"
    by (simp add: release_description)
  moreover from Cons.prems Cons.IH [of ?p "n + 1"]
  have "\<exists>q. read_lines ?p (n + 1) ds = Inr q \<and> state q = state ?p" by simp
  ultimately show ?case by simp
qed

lemma release_tail:
  assumes p: "release (state p)" "\<not> task (state p)" "date (state p)" "dependencies (state p)"
      "protocol (state p)"
    and tr: "tr = [] \<or> (\<exists>t d0 ds. tr = t # d0 # ds \<and> re_match task_type_pattern t
        \<and> re_match description_initial_pattern d0
        \<and> (\<forall>d\<in>set ds. re_match description_pattern d))"
    and b: "re_match separator_pattern b"
  shows "\<exists>q. read_lines p n (tr @ [b]) = Inr q \<and> state q = state (reset_release_state p)"
proof -
  from tr show ?thesis
  proof
    assume "tr = []"
    with p b show ?thesis by (simp add: release_separator reset_release_state_def)
  next
    assume "\<exists>t d0 ds. tr = t # d0 # ds \<and> re_match task_type_pattern t
        \<and> re_match description_initial_pattern d0
        \<and> (\<forall>d\<in>set ds. re_match description_pattern d)"
    then obtain t d0 ds where tr: "tr = t # d0 # ds" and t: "re_match task_type_pattern t"
      and d0: "re_match description_initial_pattern d0"
      and ds: "\<forall>d\<in>set ds. re_match description_pattern d" by blast
    let ?p1 = "(set_current_line_number p (n + 1))\<lparr>state := (state p)\<lparr>type := True\<rparr>\<rparr>"
    let ?p2 = "(set_current_line_number ?p1 (n + 2))
        \<lparr>state := (state p)\<lparr>type := True, description := True\<rparr>\<rparr>"
    from p t have s1: "parse_line (set_current_line_number p (n + 1)) t = Inr ?p1"
      by (simp add: release_type)
    from p d0 have s2: "parse_line (set_current_line_number ?p1 (n + 2)) d0 = Inr ?p2"
      by (simp add: release_description_initial)
    from p ds release_description_lines [of ?p2 ds "n + 2"]
    obtain q where q: "read_lines ?p2 (n + 2) ds = Inr q" and sq: "state q = state ?p2"
      by auto
    let ?k = "n + 2 + int (length ds) + 1"
    from p b sq have s3: "parse_line (set_current_line_number q ?k) b
        = Inr (reset_release_state (set_current_line_number q ?k))"
      by (simp add: release_separator)
    have "read_lines p n (tr @ [b]) = read_lines ?p2 (n + 2) (ds @ [b])"
      using s1 s2 tr by (simp add: algebra_simps)
    also have "\<dots> = Inr (reset_release_state (set_current_line_number q ?k))"
      using q s3 by (simp add: read_lines_append)
    finally show ?thesis using sq by (auto simp: reset_release_state_def)
  qed
qed

lemma read_lines_Cons_Inr:
  "parse_line (set_current_line_number p (n + 1)) l = Inr q \<Longrightarrow>
   read_lines p n (l # ls) = read_lines q (n + 1) ls"
  by simp

lemma release_block:
  assumes u: "undetermined p"
    and l1: "re_match release_extended_pattern decl" and l2: "re_match date_pattern dt"
    and bs: "bs = [] \<or> (\<exists>bl. bs = [bl] \<and> re_match base_pattern bl)"
    and l3: "re_match dependencies_pattern dp" and l4: "re_match protocol_pattern pr"
    and tr: "tr = [] \<or> (\<exists>t d0 ds. tr = t # d0 # ds \<and> re_match task_type_pattern t
        \<and> re_match description_initial_pattern d0
        \<and> (\<forall>d\<in>set ds. re_match description_pattern d))"
    and b: "re_match separator_pattern b"
  shows "\<exists>q. read_lines p n (decl # dt # bs @ dp # pr # tr @ [b]) = Inr q
    \<and> state q = state (reset_release_state p)"
proof -
  define p1 where "p1 = (set_current_line_number p (n + 1))\<lparr>state := (state p)\<lparr>release := True\<rparr>\<rparr>"
  from u l1 have s1: "parse_line (set_current_line_number p (n + 1)) decl = Inr p1"
    by (simp add: parse_line_release_decl undetermined_def p1_def)
  from u have f1: "release (state p1)" "\<not> task (state p1)"
    "state (reset_release_state p1) = state (reset_release_state p)"
    by (simp_all add: p1_def undetermined_def reset_release_state_def)
  define p2 where "p2 = (set_current_line_number p1 (n + 1 + 1))\<lparr>state := (state p1)\<lparr>date := True\<rparr>\<rparr>"
  from f1 l2 have s2: "parse_line (set_current_line_number p1 (n + 1 + 1)) dt = Inr p2"
    by (simp add: release_date p2_def)
  from f1 have f2: "release (state p2)" "\<not> task (state p2)" "date (state p2)"
    "state (reset_release_state p2) = state (reset_release_state p)"
    by (simp_all add: p2_def reset_release_state_def)
  have "\<exists>q. read_lines p2 (n + 1 + 1) bs = Inr q \<and> release (state q) \<and> \<not> task (state q)
      \<and> date (state q) \<and> state (reset_release_state q) = state (reset_release_state p)"
    using bs
  proof
    assume "bs = []"
    with f2 show ?thesis by simp
  next
    assume "\<exists>bl. bs = [bl] \<and> re_match base_pattern bl"
    then obtain bl where bl: "bs = [bl]" "re_match base_pattern bl" by blast
    define p3 where "p3 = (set_current_line_number p2 (n + 1 + 1 + 1))
        \<lparr>state := (state p2)\<lparr>base := True\<rparr>\<rparr>"
    from f2 bl have "parse_line (set_current_line_number p2 (n + 1 + 1 + 1)) bl = Inr p3"
      by (simp add: release_base p3_def)
    then have "read_lines p2 (n + 1 + 1) bs = Inr p3" by (simp add: bl)
    moreover from f2 have "release (state p3)" "\<not> task (state p3)" "date (state p3)"
      "state (reset_release_state p3) = state (reset_release_state p)"
      by (simp_all add: p3_def reset_release_state_def)
    ultimately show ?thesis by blast
  qed
  then obtain q where q: "read_lines p2 (n + 1 + 1) bs = Inr q"
    and fq: "release (state q)" "\<not> task (state q)" "date (state q)"
      "state (reset_release_state q) = state (reset_release_state p)" by blast
  define m where "m = n + 1 + 1 + int (length bs)"
  define q1 where "q1 = (set_current_line_number q (m + 1))
      \<lparr>state := (state q)\<lparr>dependencies := True\<rparr>\<rparr>"
  from fq l3 have s3: "parse_line (set_current_line_number q (m + 1)) dp = Inr q1"
    by (simp add: release_dependencies q1_def)
  from fq have g1: "release (state q1)" "\<not> task (state q1)" "date (state q1)"
    "dependencies (state q1)"
    "state (reset_release_state q1) = state (reset_release_state p)"
    by (simp_all add: q1_def reset_release_state_def)
  define q2 where "q2 = (set_current_line_number q1 (m + 1 + 1))
      \<lparr>state := (state q1)\<lparr>protocol := True\<rparr>\<rparr>"
  from g1 l4 have s4: "parse_line (set_current_line_number q1 (m + 1 + 1)) pr = Inr q2"
    by (simp add: release_protocol q2_def)
  from g1 have g2: "release (state q2)" "\<not> task (state q2)" "date (state q2)"
    "dependencies (state q2)" "protocol (state q2)"
    "state (reset_release_state q2) = state (reset_release_state p)"
    by (simp_all add: q2_def reset_release_state_def)
  from release_tail [OF g2(1-5) tr b]
  obtain r where r: "read_lines q2 (m + 1 + 1) (tr @ [b]) = Inr r"
    and sr: "state r = state (reset_release_state q2)" by blast
  have "read_lines p n (decl # dt # bs @ dp # pr # tr @ [b])
      = read_lines p1 (n + 1) (dt # bs @ dp # pr # tr @ [b])"
    using s1 by (rule read_lines_Cons_Inr)
  also have "\<dots> = read_lines p2 (n + 1 + 1) (bs @ dp # pr # tr @ [b])"
    using s2 by (rule read_lines_Cons_Inr)
  also have "\<dots> = read_lines q m (dp # pr # tr @ [b])"
    using q by (simp add: read_lines_append m_def)
  also have "\<dots> = read_lines q1 (m + 1) (pr # tr @ [b])"
    using s3 by (rule read_lines_Cons_Inr)
  also have "\<dots> = read_lines q2 (m + 1 + 1) (tr @ [b])"
    using s4 by (rule read_lines_Cons_Inr)
  also note r
  finally have "read_lines p n (decl # dt # bs @ dp # pr # tr @ [b]) = Inr r" .
  with sr g2(6) show ?thesis by simp
qed

section \<open>The claims of the specification\<close>

text \<open>
  Claim C7. The comment of \<^verbatim>\<open>dependencies_pattern\<close> names two lines, \<^verbatim>\<open>    dependencies:\<close> and
  \<^verbatim>\<open>    dependencies: []\<close>, and the claim says that no line with the suffix repeated is a
  dependencies field. The pattern repeats the group with \<^verbatim>\<open>*\<close>: the line with the suffix
  written twice matches it.
\<close>

theorem dependencies_pattern_repeated_suffix: "re_match dependencies_pattern ''    dependencies: [] []''"
  by code_simp

text \<open>
  Claim C9. With no block open, a line that starts with two spaces and \<^verbatim>\<open>- task: \<close> but is
  not a well-formed task declaration gets the diagnostic that names the shape
  \<^verbatim>\<open>- task: <link-to-task>\<close>, at that line; this is not the message that asks for a
  \<^verbatim>\<open>- task:\<close> or \<^verbatim>\<open>- release:\<close> declaration. The parser of \<^verbatim>\<open>__init__\<close>, given the single
  line \<^verbatim>\<open>  - task: not-a-link\<close>, raises it at line 1.
\<close>

theorem task_without_link_diagnostic:
  "(undetermined p \<and> re_match task_pattern s \<and> \<not> re_match task_extended_pattern s \<longrightarrow>
      parse_line p s = Inl (Diagnostic (line_number p) s ''`  - task: <link-to-task>`''))
   \<and> read_lines init 0 [''  - task: not-a-link'']
       = Inl (Diagnostic 1 ''  - task: not-a-link'' ''`  - task: <link-to-task>`'')
   \<and> ''`  - task: <link-to-task>`'' \<noteq> ''`  - {task,release}:`''"
proof (intro conjI impI)
  assume a: "undetermined p \<and> re_match task_pattern s \<and> \<not> re_match task_extended_pattern s"
  then have t: "re_match task_pattern s" by simp
  from a task_like_line [OF t]
  show "parse_line p s = Inl (Diagnostic (line_number p) s ''`  - task: <link-to-task>`'')"
    by (simp add: parse_line_def parse_initial_def validate_initial_def raise_error_def
        undetermined_def)
next
  show "read_lines init 0 [''  - task: not-a-link'']
       = Inl (Diagnostic 1 ''  - task: not-a-link'' ''`  - task: <link-to-task>`'')"
    by code_simp
next
  show "''`  - task: <link-to-task>`'' \<noteq> ''`  - {task,release}:`''" by simp
qed

theorem task_without_link_diagnostic_witness:
  "undetermined init \<and> re_match task_pattern ''  - task: not-a-link''
   \<and> \<not> re_match task_extended_pattern ''  - task: not-a-link''
   \<and> parse_line init ''  - task: not-a-link''
       = Inl (Diagnostic (line_number init) ''  - task: not-a-link'' ''`  - task: <link-to-task>`'')"
proof -
  have h: "undetermined init \<and> re_match task_pattern ''  - task: not-a-link''
     \<and> \<not> re_match task_extended_pattern ''  - task: not-a-link''"
    by code_simp
  with task_without_link_diagnostic [of init "''  - task: not-a-link''"] show ?thesis by blast
qed

lemma run_stops_at:
  "read_lines init 0 ls = Inr p \<Longrightarrow>
   parse_line (set_current_line_number p (int (length ls) + 1)) s = Inl d \<Longrightarrow>
   read_lines init 0 (ls @ s # rest) = Inl d"
  by (simp add: read_lines_append)

text \<open>
  Claim C3. In a release block a mandatory field that arrives out of order is refused at its
  own line: a dependencies or protocol line before the date gets the diagnostic that asks
  for the date, a protocol line after the date and before the dependencies gets the one
  that asks for the dependencies. When the lines are read from the parser of \<^verbatim>\<open>__init__\<close> the
  diagnostic carries the number of that line. On the lines \<^verbatim>\<open>1:\<close>, \<^verbatim>\<open>  - release: 7\<close>,
  \<^verbatim>\<open>    protocol: 3\<close>, \<^verbatim>\<open>    date: 01.02.24\<close> the diagnostic is raised at line 3 and asks for
  the date.
\<close>

theorem release_order_diagnostic:
  "(in_release p \<and> \<not> date (state p)
      \<and> (re_match dependencies_pattern s \<or> re_match protocol_pattern s) \<longrightarrow>
      parse_line p s = Inl (Diagnostic (line_number p) s ''`    date: <dd.mm.yy>`''))
   \<and> (in_release p \<and> date (state p) \<and> \<not> dependencies (state p)
      \<and> re_match protocol_pattern s \<longrightarrow>
      parse_line p s = Inl (Diagnostic (line_number p) s ''`    dependencies:`''))
   \<and> (read_lines init 0 ls = Inr p \<and> in_release p \<and> \<not> date (state p)
      \<and> (re_match dependencies_pattern s \<or> re_match protocol_pattern s) \<longrightarrow>
      read_lines init 0 (ls @ s # rest)
        = Inl (Diagnostic (int (length ls) + 1) s ''`    date: <dd.mm.yy>`''))
   \<and> (read_lines init 0 ls = Inr p \<and> in_release p \<and> date (state p)
      \<and> \<not> dependencies (state p) \<and> re_match protocol_pattern s \<longrightarrow>
      read_lines init 0 (ls @ s # rest)
        = Inl (Diagnostic (int (length ls) + 1) s ''`    dependencies:`''))
   \<and> read_lines init 0 [''1:'', ''  - release: 7'', ''    protocol: 3'', ''    date: 01.02.24'']
       = Inl (Diagnostic 3 ''    protocol: 3'' ''`    date: <dd.mm.yy>`'')"
proof -
  have a: "parse_line q s = Inl (Diagnostic (line_number q) s ''`    date: <dd.mm.yy>`'')"
    if "in_release q" "\<not> date (state q)"
      "re_match dependencies_pattern s \<or> re_match protocol_pattern s" for q
    using that dependencies_line [of s] protocol_line [of s]
    by (auto simp: parse_line_def parse_release_def raise_error_def in_release_def)
  have b: "parse_line q s = Inl (Diagnostic (line_number q) s ''`    dependencies:`'')"
    if "in_release q" "date (state q)" "\<not> dependencies (state q)"
      "re_match protocol_pattern s" for q
    using that protocol_line [of s]
    by (auto simp: parse_line_def parse_release_def raise_error_def in_release_def)
  have c: "read_lines init 0 (ls @ s # rest)
        = Inl (Diagnostic (int (length ls) + 1) s ''`    date: <dd.mm.yy>`'')"
    if "read_lines init 0 ls = Inr p" "in_release p" "\<not> date (state p)"
      "re_match dependencies_pattern s \<or> re_match protocol_pattern s"
    using that a [of "set_current_line_number p (int (length ls) + 1)"]
    by (simp add: run_stops_at in_release_def)
  have d: "read_lines init 0 (ls @ s # rest)
        = Inl (Diagnostic (int (length ls) + 1) s ''`    dependencies:`'')"
    if "read_lines init 0 ls = Inr p" "in_release p" "date (state p)"
      "\<not> dependencies (state p)" "re_match protocol_pattern s"
    using that b [of "set_current_line_number p (int (length ls) + 1)"]
    by (simp add: run_stops_at in_release_def)
  have e: "read_lines init 0 [''1:'', ''  - release: 7'', ''    protocol: 3'', ''    date: 01.02.24'']
       = Inl (Diagnostic 3 ''    protocol: 3'' ''`    date: <dd.mm.yy>`'')"
    by code_simp
  from a b c d e show ?thesis by blast
qed

theorem release_order_diagnostic_witness:
  "read_lines init 0 [''1:'', ''  - release: 7''] = Inr
     \<lparr>line_number = 2, state =
       \<lparr>major_ver = True, task = False, arch = False, type = False, description = False,
        release = True, date = False, dependencies = False, base = False, protocol = False\<rparr>\<rparr>
   \<and> re_match protocol_pattern ''    protocol: 3''
   \<and> read_lines init 0 ([''1:'', ''  - release: 7''] @ ''    protocol: 3'' # [''    date: 01.02.24''])
       = Inl (Diagnostic 3 ''    protocol: 3'' ''`    date: <dd.mm.yy>`'')
   \<and> parse_line
        \<lparr>line_number = 4, state =
          \<lparr>major_ver = True, task = False, arch = False, type = False, description = False,
           release = True, date = True, dependencies = False, base = False, protocol = False\<rparr>\<rparr>
        ''    protocol: 3''
       = Inl (Diagnostic 4 ''    protocol: 3'' ''`    dependencies:`'')"
proof -
  let ?p = "\<lparr>line_number = 2, state =
       \<lparr>major_ver = True, task = False, arch = False, type = False, description = False,
        release = True, date = False, dependencies = False, base = False, protocol = False\<rparr>\<rparr>"
  let ?q = "\<lparr>line_number = 4, state =
          \<lparr>major_ver = True, task = False, arch = False, type = False, description = False,
           release = True, date = True, dependencies = False, base = False, protocol = False\<rparr>\<rparr>"
  have r: "read_lines init 0 [''1:'', ''  - release: 7''] = Inr ?p" by code_simp
  have m: "re_match protocol_pattern ''    protocol: 3''" by code_simp
  have p: "in_release ?p" "\<not> date (state ?p)" by (simp_all add: in_release_def)
  have q: "in_release ?q" "date (state ?q)" "\<not> dependencies (state ?q)"
    by (simp_all add: in_release_def)
  from release_order_diagnostic [of ?p "''    protocol: 3''" "[''1:'', ''  - release: 7'']" "[''    date: 01.02.24'']"]
    r m p
  have 1: "read_lines init 0 ([''1:'', ''  - release: 7''] @ ''    protocol: 3'' # [''    date: 01.02.24''])
       = Inl (Diagnostic 3 ''    protocol: 3'' ''`    date: <dd.mm.yy>`'')"
    by simp
  from release_order_diagnostic [of ?q "''    protocol: 3''" "[]" "[]"] m q
  have 2: "parse_line ?q ''    protocol: 3''
       = Inl (Diagnostic 4 ''    protocol: 3'' ''`    dependencies:`'')"
    by simp
  from r m 1 2 show ?thesis by blast
qed

text \<open>
  Claim C10. No step of \<^verbatim>\<open>parse_line\<close> sets the task flag and the release flag together:
  a step from a state where they are not both set leaves them not both set, so every state
  that a run reaches from the initial parser is in exactly one of the modes Undetermined,
  InTask and InRelease; \<^verbatim>\<open>reset_state\<close> clears the task flag and \<^verbatim>\<open>reset_release_state\<close> the
  release flag.
\<close>

theorem modes_exclusive:
  "(\<not> (task (state p) \<and> release (state p)) \<and> parse_line p s = Inr q \<longrightarrow>
      \<not> (task (state q) \<and> release (state q)))
   \<and> (read_lines init 0 ls = Inr r \<longrightarrow>
      \<not> (task (state r) \<and> release (state r))
      \<and> ((undetermined r \<and> \<not> in_task r \<and> \<not> in_release r)
        \<or> (in_task r \<and> \<not> undetermined r \<and> \<not> in_release r)
        \<or> (in_release r \<and> \<not> undetermined r \<and> \<not> in_task r)))
   \<and> \<not> task (state (reset_state p)) \<and> \<not> release (state (reset_release_state p))"
proof -
  have a: "\<not> (task (state q) \<and> release (state q))"
    if "\<not> (task (state p) \<and> release (state p))" "parse_line p s = Inr q"
    using parse_line_modes [OF that(2) that(1)] .
  have i: "\<not> (task (state init) \<and> release (state init))" by (simp add: init_def)
  have b: "\<not> (task (state r) \<and> release (state r))" if "read_lines init 0 ls = Inr r"
    using read_lines_modes [OF that i] .
  have c: "(undetermined r \<and> \<not> in_task r \<and> \<not> in_release r)
        \<or> (in_task r \<and> \<not> undetermined r \<and> \<not> in_release r)
        \<or> (in_release r \<and> \<not> undetermined r \<and> \<not> in_task r)"
    if "read_lines init 0 ls = Inr r"
    using b [OF that] by (auto simp: undetermined_def in_task_def in_release_def)
  have d: "\<not> task (state (reset_state p))" "\<not> release (state (reset_release_state p))"
    by (simp_all add: reset_state_def reset_release_state_def)
  from a b c d show ?thesis by blast
qed

theorem modes_exclusive_witness:
  "\<not> (task (state init) \<and> release (state init))
   \<and> parse_line init ''  - release: 7'' = Inr (init\<lparr>state := (state init)\<lparr>release := True\<rparr>\<rparr>)
   \<and> \<not> (task (state (init\<lparr>state := (state init)\<lparr>release := True\<rparr>\<rparr>))
        \<and> release (state (init\<lparr>state := (state init)\<lparr>release := True\<rparr>\<rparr>)))
   \<and> read_lines init 0 [''  - task: http://tracker/123'', ''    arch: avr''] = Inr
       \<lparr>line_number = 2, state =
         \<lparr>major_ver = False, task = True, arch = True, type = False, description = False,
          release = False, date = False, dependencies = False, base = False, protocol = False\<rparr>\<rparr>
   \<and> in_task
       \<lparr>line_number = 2, state =
         \<lparr>major_ver = False, task = True, arch = True, type = False, description = False,
          release = False, date = False, dependencies = False, base = False, protocol = False\<rparr>\<rparr>"
proof -
  let ?q = "init\<lparr>state := (state init)\<lparr>release := True\<rparr>\<rparr>"
  let ?r = "\<lparr>line_number = 2, state =
         \<lparr>major_ver = False, task = True, arch = True, type = False, description = False,
          release = False, date = False, dependencies = False, base = False, protocol = False\<rparr>\<rparr>"
  have i: "\<not> (task (state init) \<and> release (state init))" by (simp add: init_def)
  have s: "parse_line init ''  - release: 7'' = Inr ?q" by code_simp
  have r: "read_lines init 0 [''  - task: http://tracker/123'', ''    arch: avr''] = Inr ?r"
    by code_simp
  from modes_exclusive [of init "''  - release: 7''" ?q "[''  - task: http://tracker/123'', ''    arch: avr'']" ?r]
    i s r
  have "\<not> (task (state ?q) \<and> release (state ?q))" and "in_task ?r"
    by (auto simp: undetermined_def in_task_def in_release_def)
  with i s r show ?thesis by blast
qed

text \<open>
  Claim C4. From a state with no block open, a well-formed task block (a task declaration,
  an architecture line, a type line, a first description line, any number of further
  description lines and a separator) is read without a diagnostic, and after the separator
  no block is open and every flag is reset; after the declaration alone the task block is
  open. The parser of \<^verbatim>\<open>__init__\<close> reads the lines \<^verbatim>\<open>1:\<close>, \<^verbatim>\<open>  - task: http://tracker/123\<close>,
  \<^verbatim>\<open>    arch: stm32, avr\<close>, \<^verbatim>\<open>    feature: |\<close>, \<^verbatim>\<open>      adds X\<close> and an empty line without a
  diagnostic and ends with no block open.
\<close>

theorem task_block_accepted:
  "(undetermined p \<and> re_match task_extended_pattern decl \<and> re_match arch_pattern a
      \<and> re_match task_type_pattern t \<and> re_match description_initial_pattern d0
      \<and> (\<forall>d\<in>set ds. re_match description_pattern d) \<and> re_match separator_pattern b \<longrightarrow>
      (\<exists>q. read_lines p n (decl # a # t # d0 # ds @ [b]) = Inr q \<and> undetermined q
         \<and> state q = state (reset_state p)))
   \<and> (undetermined p \<and> re_match task_extended_pattern decl \<longrightarrow>
      (\<exists>q. read_lines p n [decl] = Inr q \<and> in_task q))
   \<and> read_lines init 0 [''1:'', ''  - task: http://tracker/123'', ''    arch: stm32, avr'',
        ''    feature: |'', ''      adds X'', ''''] = Inr
       \<lparr>line_number = 6, state =
         \<lparr>major_ver = False, task = False, arch = False, type = False, description = False,
          release = False, date = False, dependencies = False, base = False, protocol = False\<rparr>\<rparr>
   \<and> undetermined
       \<lparr>line_number = 6, state =
         \<lparr>major_ver = False, task = False, arch = False, type = False, description = False,
          release = False, date = False, dependencies = False, base = False, protocol = False\<rparr>\<rparr>"
proof (intro conjI impI)
  assume h: "undetermined p \<and> re_match task_extended_pattern decl \<and> re_match arch_pattern a
      \<and> re_match task_type_pattern t \<and> re_match description_initial_pattern d0
      \<and> (\<forall>d\<in>set ds. re_match description_pattern d) \<and> re_match separator_pattern b"
  then obtain q where "read_lines p n (decl # a # t # d0 # ds @ [b]) = Inr q"
    and "state q = state (reset_state p)"
    using task_block [of p decl a t d0 ds b n] by blast
  moreover from this have "undetermined q"
    by (simp add: undetermined_def reset_state_def)
  ultimately show "\<exists>q. read_lines p n (decl # a # t # d0 # ds @ [b]) = Inr q \<and> undetermined q
         \<and> state q = state (reset_state p)" by blast
next
  assume h: "undetermined p \<and> re_match task_extended_pattern decl"
  let ?p = "set_current_line_number p (n + 1)"
  from h have "\<not> task (state ?p)" "\<not> release (state ?p)" "re_match task_extended_pattern decl"
    by (simp_all add: undetermined_def)
  from parse_line_task_decl [OF this]
  have "read_lines p n [decl] = Inr (?p\<lparr>state := (state ?p)\<lparr>task := True\<rparr>\<rparr>)" by simp
  moreover from h have "in_task (?p\<lparr>state := (state ?p)\<lparr>task := True\<rparr>\<rparr>)"
    by (simp add: in_task_def undetermined_def)
  ultimately show "\<exists>q. read_lines p n [decl] = Inr q \<and> in_task q" by blast
next
  show "read_lines init 0 [''1:'', ''  - task: http://tracker/123'', ''    arch: stm32, avr'',
        ''    feature: |'', ''      adds X'', ''''] = Inr
       \<lparr>line_number = 6, state =
         \<lparr>major_ver = False, task = False, arch = False, type = False, description = False,
          release = False, date = False, dependencies = False, base = False, protocol = False\<rparr>\<rparr>"
    by code_simp
next
  show "undetermined
       \<lparr>line_number = 6, state =
         \<lparr>major_ver = False, task = False, arch = False, type = False, description = False,
          release = False, date = False, dependencies = False, base = False, protocol = False\<rparr>\<rparr>"
    by (simp add: undetermined_def)
qed

theorem task_block_accepted_witness:
  "undetermined init \<and> re_match task_extended_pattern ''  - task: http://tracker/123''
   \<and> re_match arch_pattern ''    arch: stm32, avr'' \<and> re_match task_type_pattern ''    feature: |''
   \<and> re_match description_initial_pattern ''      adds X''
   \<and> re_match description_pattern ''      and Y'' \<and> re_match description_pattern ''      ''
   \<and> re_match separator_pattern ''''
   \<and> (\<exists>q. read_lines init 0 (''  - task: http://tracker/123'' # ''    arch: stm32, avr''
          # ''    feature: |'' # ''      adds X'' # [''      and Y'', ''      ''] @ ['''']) = Inr q
        \<and> undetermined q \<and> state q = state (reset_state init))
   \<and> (\<exists>q. read_lines init 0 [''  - task: http://tracker/123''] = Inr q \<and> in_task q)"
proof -
  have h: "undetermined init" "re_match task_extended_pattern ''  - task: http://tracker/123''"
    "re_match arch_pattern ''    arch: stm32, avr''" "re_match task_type_pattern ''    feature: |''"
    "re_match description_initial_pattern ''      adds X''"
    "re_match description_pattern ''      and Y''" "re_match description_pattern ''      ''"
    "re_match separator_pattern ''''"
    by code_simp+
  from h(6,7) have hd: "\<forall>d\<in>set [''      and Y'', ''      '']. re_match description_pattern d"
    by simp
  from task_block_accepted [of init "''  - task: http://tracker/123''" "''    arch: stm32, avr''"
      "''    feature: |''" "''      adds X''" "[''      and Y'', ''      '']" "''''" 0]
    h(1-5) h(8) hd
  have 1: "\<exists>q. read_lines init 0 (''  - task: http://tracker/123'' # ''    arch: stm32, avr''
          # ''    feature: |'' # ''      adds X'' # [''      and Y'', ''      ''] @ ['''']) = Inr q
        \<and> undetermined q \<and> state q = state (reset_state init)"
    by blast
  from task_block_accepted [of init "''  - task: http://tracker/123''" "''    arch: stm32, avr''"
      "''    feature: |''" "''      adds X''" "[''      and Y'', ''      '']" "''''" 0]
    h(1,2)
  have 2: "\<exists>q. read_lines init 0 [''  - task: http://tracker/123''] = Inr q \<and> in_task q"
    by blast
  from h 1 2 show ?thesis by blast
qed

text \<open>
  Claim C5. From a state with no block open, a release block with the fields in order (a
  release or prerelease declaration, the date, the dependencies, the protocol and a
  separator) is read without a diagnostic; so it is with one base line between the date and
  the dependencies, and with a type line, a first description line and further description
  lines between the protocol and the separator. After the separator no block is open and the
  release flags are reset; after the declaration alone the release block is open. The
  parser of \<^verbatim>\<open>__init__\<close> reads the lines \<^verbatim>\<open>1:\<close>, \<^verbatim>\<open>  - release: 7\<close>, \<^verbatim>\<open>    date: 01.02.24\<close>,
  \<^verbatim>\<open>    dependencies: []\<close>, \<^verbatim>\<open>    protocol: 3\<close> and an empty line without a diagnostic and ends
  with no block open.
\<close>

theorem release_block_accepted:
  "(undetermined p \<and> re_match release_extended_pattern decl \<and> re_match date_pattern dt
      \<and> (bs = [] \<or> (\<exists>bl. bs = [bl] \<and> re_match base_pattern bl))
      \<and> re_match dependencies_pattern dp \<and> re_match protocol_pattern pr
      \<and> (tr = [] \<or> (\<exists>t d0 ds. tr = t # d0 # ds \<and> re_match task_type_pattern t
            \<and> re_match description_initial_pattern d0
            \<and> (\<forall>d\<in>set ds. re_match description_pattern d)))
      \<and> re_match separator_pattern b \<longrightarrow>
      (\<exists>q. read_lines p n (decl # dt # bs @ dp # pr # tr @ [b]) = Inr q \<and> undetermined q
         \<and> state q = state (reset_release_state p)))
   \<and> (undetermined p \<and> re_match release_extended_pattern decl \<longrightarrow>
      (\<exists>q. read_lines p n [decl] = Inr q \<and> in_release q))
   \<and> read_lines init 0 [''1:'', ''  - release: 7'', ''    date: 01.02.24'', ''    dependencies: []'',
        ''    protocol: 3'', ''''] = Inr
       \<lparr>line_number = 6, state =
         \<lparr>major_ver = True, task = False, arch = False, type = False, description = False,
          release = False, date = False, dependencies = False, base = False, protocol = False\<rparr>\<rparr>
   \<and> undetermined
       \<lparr>line_number = 6, state =
         \<lparr>major_ver = True, task = False, arch = False, type = False, description = False,
          release = False, date = False, dependencies = False, base = False, protocol = False\<rparr>\<rparr>"
proof (intro conjI impI)
  assume h: "undetermined p \<and> re_match release_extended_pattern decl \<and> re_match date_pattern dt
      \<and> (bs = [] \<or> (\<exists>bl. bs = [bl] \<and> re_match base_pattern bl))
      \<and> re_match dependencies_pattern dp \<and> re_match protocol_pattern pr
      \<and> (tr = [] \<or> (\<exists>t d0 ds. tr = t # d0 # ds \<and> re_match task_type_pattern t
            \<and> re_match description_initial_pattern d0
            \<and> (\<forall>d\<in>set ds. re_match description_pattern d)))
      \<and> re_match separator_pattern b"
  then have u: "undetermined p" by simp
  from h obtain q where "read_lines p n (decl # dt # bs @ dp # pr # tr @ [b]) = Inr q"
    and "state q = state (reset_release_state p)"
    using release_block [of p decl dt bs dp pr tr b n] by blast
  moreover from this u have "undetermined q"
    by (simp add: undetermined_def reset_release_state_def)
  ultimately show "\<exists>q. read_lines p n (decl # dt # bs @ dp # pr # tr @ [b]) = Inr q
      \<and> undetermined q \<and> state q = state (reset_release_state p)" by blast
next
  assume h: "undetermined p \<and> re_match release_extended_pattern decl"
  let ?p = "set_current_line_number p (n + 1)"
  from h have "\<not> task (state ?p)" "\<not> release (state ?p)"
    "re_match release_extended_pattern decl"
    by (simp_all add: undetermined_def)
  from parse_line_release_decl [OF this]
  have "read_lines p n [decl] = Inr (?p\<lparr>state := (state ?p)\<lparr>release := True\<rparr>\<rparr>)" by simp
  moreover from h have "in_release (?p\<lparr>state := (state ?p)\<lparr>release := True\<rparr>\<rparr>)"
    by (simp add: in_release_def undetermined_def)
  ultimately show "\<exists>q. read_lines p n [decl] = Inr q \<and> in_release q" by blast
next
  show "read_lines init 0 [''1:'', ''  - release: 7'', ''    date: 01.02.24'', ''    dependencies: []'',
        ''    protocol: 3'', ''''] = Inr
       \<lparr>line_number = 6, state =
         \<lparr>major_ver = True, task = False, arch = False, type = False, description = False,
          release = False, date = False, dependencies = False, base = False, protocol = False\<rparr>\<rparr>"
    by code_simp
next
  show "undetermined
       \<lparr>line_number = 6, state =
         \<lparr>major_ver = True, task = False, arch = False, type = False, description = False,
          release = False, date = False, dependencies = False, base = False, protocol = False\<rparr>\<rparr>"
    by (simp add: undetermined_def)
qed

theorem release_block_accepted_witness:
  "undetermined init \<and> re_match release_extended_pattern ''  - prerelease: 12''
   \<and> re_match date_pattern ''    date: 01.02.24'' \<and> re_match base_pattern ''    base: 11''
   \<and> re_match dependencies_pattern ''    dependencies:''
   \<and> re_match protocol_pattern ''    protocol: 3''
   \<and> re_match task_type_pattern ''    info: |''
   \<and> re_match description_initial_pattern ''      first''
   \<and> re_match description_pattern ''      '' \<and> re_match description_pattern ''      second''
   \<and> re_match separator_pattern ''''
   \<and> (\<exists>q. read_lines init 0 (''  - prerelease: 12'' # ''    date: 01.02.24''
          # [''    base: 11''] @ ''    dependencies:'' # ''    protocol: 3''
          # [''    info: |'', ''      first'', ''      '', ''      second''] @ ['''']) = Inr q
        \<and> undetermined q \<and> state q = state (reset_release_state init))
   \<and> (\<exists>q. read_lines init 0 [''  - prerelease: 12''] = Inr q \<and> in_release q)"
proof -
  have h: "undetermined init" "re_match release_extended_pattern ''  - prerelease: 12''"
    "re_match date_pattern ''    date: 01.02.24''" "re_match base_pattern ''    base: 11''"
    "re_match dependencies_pattern ''    dependencies:''"
    "re_match protocol_pattern ''    protocol: 3''"
    "re_match task_type_pattern ''    info: |''"
    "re_match description_initial_pattern ''      first''"
    "re_match description_pattern ''      '' \<and> re_match description_pattern ''      second''"
    "re_match separator_pattern ''''"
    by code_simp+
  from h(4) have hb: "[''    base: 11''] = [] \<or> (\<exists>bl. [''    base: 11''] = [bl]
      \<and> re_match base_pattern bl)" by simp
  from h(7-9) have ht: "[''    info: |'', ''      first'', ''      '', ''      second''] = []
      \<or> (\<exists>t d0 ds. [''    info: |'', ''      first'', ''      '', ''      second''] = t # d0 # ds
        \<and> re_match task_type_pattern t \<and> re_match description_initial_pattern d0
        \<and> (\<forall>d\<in>set ds. re_match description_pattern d))" by simp
  from release_block_accepted [of init "''  - prerelease: 12''" "''    date: 01.02.24''" "[''    base: 11'']"
      "''    dependencies:''" "''    protocol: 3''"
      "[''    info: |'', ''      first'', ''      '', ''      second'']" "''''" 0]
    h(1-3) h(5,6) h(10) hb ht
  have 1: "\<exists>q. read_lines init 0 (''  - prerelease: 12'' # ''    date: 01.02.24''
          # [''    base: 11''] @ ''    dependencies:'' # ''    protocol: 3''
          # [''    info: |'', ''      first'', ''      '', ''      second''] @ ['''']) = Inr q
        \<and> undetermined q \<and> state q = state (reset_release_state init)"
    by blast
  from release_block_accepted [of init "''  - prerelease: 12''" "''    date: 01.02.24''" "[''    base: 11'']"
      "''    dependencies:''" "''    protocol: 3''"
      "[''    info: |'', ''      first'', ''      '', ''      second'']" "''''" 0]
    h(1,2)
  have 2: "\<exists>q. read_lines init 0 [''  - prerelease: 12''] = Inr q \<and> in_release q"
    by blast
  from h 1 2 show ?thesis by blast
qed

text \<open>
  Claim C1. The claim says that a stream that ends while a block is open is treated as an
  error. The class has no method for the end of the stream and raises a diagnostic only
  from \<^verbatim>\<open>parse_line\<close>: the parser of \<^verbatim>\<open>__init__\<close> reads the lines \<^verbatim>\<open>1:\<close>,
  \<^verbatim>\<open>  - task: http://tracker/123\<close> and \<^verbatim>\<open>    arch: avr\<close>, after which nothing follows, without a
  diagnostic, and is left in the task block.
\<close>

theorem open_block_at_end_no_diagnostic:
  "read_lines init 0 [''1:'', ''  - task: http://tracker/123'', ''    arch: avr''] = Inr
     \<lparr>line_number = 3, state =
       \<lparr>major_ver = True, task = True, arch = True, type = False, description = False,
        release = False, date = False, dependencies = False, base = False, protocol = False\<rparr>\<rparr>
   \<and> in_task
     \<lparr>line_number = 3, state =
       \<lparr>major_ver = True, task = True, arch = True, type = False, description = False,
        release = False, date = False, dependencies = False, base = False, protocol = False\<rparr>\<rparr>"
  by code_simp

text \<open>
  Claim C1, as the code has it. A diagnostic belongs to a line that was read: it carries
  the number and the text of a line of the stream, and it is the same whatever follows that
  line. So the end of the stream never adds a diagnostic: every stream that some
  continuation completes to a stream read without a diagnostic is itself read without a
  diagnostic, in whichever of the three modes it ends.
\<close>

theorem diagnostics_only_at_lines:
  "(read_lines init 0 ls = Inl d \<longrightarrow>
      0 < d_line_number d \<and> d_line_number d \<le> int (length ls)
      \<and> d_line d = ls ! nat (d_line_number d - 1)
      \<and> read_lines init 0 (ls @ rest) = Inl d)
   \<and> (read_lines init 0 (ls @ rest) = Inr q \<longrightarrow>
      (\<exists>p. read_lines init 0 ls = Inr p
        \<and> (undetermined p \<or> in_task p \<or> in_release p)))"
proof (intro conjI impI)
  assume r: "read_lines init 0 ls = Inl d"
  from read_lines_diagnostic [OF r]
  show "0 < d_line_number d" "d_line_number d \<le> int (length ls)"
    "d_line d = ls ! nat (d_line_number d - 1)" by simp_all
  from r show "read_lines init 0 (ls @ rest) = Inl d" by (simp add: read_lines_append)
next
  assume r: "read_lines init 0 (ls @ rest) = Inr q"
  then obtain p where p: "read_lines init 0 ls = Inr p"
    by (cases "read_lines init 0 ls") (simp_all add: read_lines_append)
  have "\<not> (task (state init) \<and> release (state init))" by (simp add: init_def)
  from read_lines_modes [OF p this]
  have "undetermined p \<or> in_task p \<or> in_release p"
    by (auto simp: undetermined_def in_task_def in_release_def)
  with p show "\<exists>p. read_lines init 0 ls = Inr p
        \<and> (undetermined p \<or> in_task p \<or> in_release p)" by blast
qed

theorem diagnostics_only_at_lines_witness:
  "read_lines init 0 ([''  - release: 7'', ''    date: 01.02.24'']
      @ [''    dependencies:'', ''    protocol: 3'', '''']) = Inr
     \<lparr>line_number = 5, state =
       \<lparr>major_ver = False, task = False, arch = False, type = False, description = False,
        release = False, date = False, dependencies = False, base = False, protocol = False\<rparr>\<rparr>
   \<and> (\<exists>p. read_lines init 0 [''  - release: 7'', ''    date: 01.02.24''] = Inr p
        \<and> (undetermined p \<or> in_task p \<or> in_release p))
   \<and> read_lines init 0 [''1:'', ''  - task: not-a-link'']
       = Inl (Diagnostic 2 ''  - task: not-a-link'' ''`  - task: <link-to-task>`'')
   \<and> [''1:'', ''  - task: not-a-link''] ! nat (2 - 1) = ''  - task: not-a-link''
   \<and> read_lines init 0 ([''1:'', ''  - task: not-a-link''] @ [''    arch: avr''])
       = Inl (Diagnostic 2 ''  - task: not-a-link'' ''`  - task: <link-to-task>`'')"
proof -
  let ?q = "\<lparr>line_number = 5, state =
       \<lparr>major_ver = False, task = False, arch = False, type = False, description = False,
        release = False, date = False, dependencies = False, base = False, protocol = False\<rparr>\<rparr>"
  let ?d = "Diagnostic 2 ''  - task: not-a-link'' ''`  - task: <link-to-task>`''"
  have r: "read_lines init 0 ([''  - release: 7'', ''    date: 01.02.24'']
      @ [''    dependencies:'', ''    protocol: 3'', '''']) = Inr ?q"
    by code_simp
  have e: "read_lines init 0 [''1:'', ''  - task: not-a-link''] = Inl ?d" by code_simp
  from diagnostics_only_at_lines [of "[''  - release: 7'', ''    date: 01.02.24'']" _
      "[''    dependencies:'', ''    protocol: 3'', '''']" ?q] r
  have 1: "\<exists>p. read_lines init 0 [''  - release: 7'', ''    date: 01.02.24''] = Inr p
        \<and> (undetermined p \<or> in_task p \<or> in_release p)"
    by blast
  from diagnostics_only_at_lines [of "[''1:'', ''  - task: not-a-link'']" ?d "[''    arch: avr'']"] e
  have 2: "d_line ?d = [''1:'', ''  - task: not-a-link''] ! nat (d_line_number ?d - 1)"
    and 3: "read_lines init 0 ([''1:'', ''  - task: not-a-link''] @ [''    arch: avr'']) = Inl ?d"
    by blast+
  from r 1 e 2 3 show ?thesis by simp
qed

text \<open>
  Claim C2, as the specification states it: in a task block whose architecture, type and
  first description line have been read, every line other than a description continuation
  and the empty line gets a diagnostic, another architecture line or type line included.
  The code accepts them: \<^verbatim>\<open>parse_task\<close> tests \<^verbatim>\<open>arch_pattern\<close> and \<^verbatim>\<open>task_type_pattern\<close> first and
  returns. After the four lines of a task block that reach the description, an
  architecture line and a type line follow with no diagnostic and leave the state as it was.
\<close>

theorem architecture_line_in_description_accepted:
  "read_lines init 0 [''  - task: http://tracker/123'', ''    arch: avr'', ''    bug: |'',
      ''      text'', ''    arch: stm32'', ''    feature: |''] = Inr
     \<lparr>line_number = 6, state =
       \<lparr>major_ver = False, task = True, arch = True, type = True, description = True,
        release = False, date = False, dependencies = False, base = False, protocol = False\<rparr>\<rparr>
   \<and> read_lines init 0 [''  - task: http://tracker/123'', ''    arch: avr'', ''    bug: |'',
      ''      text''] = Inr
     \<lparr>line_number = 4, state =
       \<lparr>major_ver = False, task = True, arch = True, type = True, description = True,
        release = False, date = False, dependencies = False, base = False, protocol = False\<rparr>\<rparr>
   \<and> re_match arch_pattern ''    arch: stm32'' \<and> re_match task_type_pattern ''    feature: |''"
  by code_simp

text \<open>
  Claim C2, as the code has it. In a task block with the \<^verbatim>\<open>arch\<close>, \<^verbatim>\<open>type\<close> and \<^verbatim>\<open>description\<close>
  flags set: a line of six leading spaces keeps the state; the empty line resets the state,
  which is the undetermined mode; an architecture line and a type line keep the state too;
  a major version marker only sets its flag; every other line gets the diagnostic that
  asks for a description.
\<close>

theorem in_description_lines:
  "in_task p \<and> arch (state p) \<and> type (state p) \<and> description (state p) \<longrightarrow>
     (re_match description_pattern s \<longrightarrow> parse_line p s = Inr p)
   \<and> (re_match separator_pattern s \<longrightarrow>
        parse_line p s = Inr (reset_state p) \<and> undetermined (reset_state p))
   \<and> (re_match arch_pattern s \<or> re_match task_type_pattern s \<longrightarrow> parse_line p s = Inr p)
   \<and> (re_match major_vers_pattern s \<longrightarrow>
        parse_line p s = Inr (p\<lparr>state := (state p)\<lparr>major_ver := True\<rparr>\<rparr>))
   \<and> (\<not> re_match description_pattern s \<and> \<not> re_match separator_pattern s
        \<and> \<not> re_match arch_pattern s \<and> \<not> re_match task_type_pattern s
        \<and> \<not> re_match major_vers_pattern s \<longrightarrow>
        parse_line p s = Inl (Diagnostic (line_number p) s ''`      <description>`''))"
proof (intro impI)
  assume h: "in_task p \<and> arch (state p) \<and> type (state p) \<and> description (state p)"
  then have f: "task (state p)" "arch (state p)" "type (state p)" "description (state p)"
    by (simp_all add: in_task_def)
  have a: "parse_line p s = Inr p" if "re_match description_pattern s"
    using f that by (rule task_description)
  have b: "parse_line p s = Inr (reset_state p) \<and> undetermined (reset_state p)"
    if "re_match separator_pattern s"
    using task_separator [OF f that] by (simp add: undetermined_def reset_state_def)
  have c: "parse_line p s = Inr p" if "re_match arch_pattern s \<or> re_match task_type_pattern s"
    using that
  proof
    assume "re_match arch_pattern s"
    from task_arch [OF f(1) this] f(2) show ?thesis by (simp add: flag_idem)
  next
    assume "re_match task_type_pattern s"
    from task_type [OF f(1,2) this] f(3) show ?thesis by (simp add: flag_idem)
  qed
  have d: "parse_line p s = Inr (p\<lparr>state := (state p)\<lparr>major_ver := True\<rparr>\<rparr>)"
    if "re_match major_vers_pattern s"
    using that by (rule parse_line_major)
  have e: "parse_line p s = Inl (Diagnostic (line_number p) s ''`      <description>`'')"
    if "\<not> re_match description_pattern s \<and> \<not> re_match separator_pattern s
        \<and> \<not> re_match arch_pattern s \<and> \<not> re_match task_type_pattern s
        \<and> \<not> re_match major_vers_pattern s"
  proof -
    from that description_initial_line [of s]
    have "\<not> re_match description_initial_pattern s" by blast
    with that f show ?thesis
      by (simp add: parse_line_def parse_task_def raise_error_def)
  qed
  from a b c d e
  show "(re_match description_pattern s \<longrightarrow> parse_line p s = Inr p)
   \<and> (re_match separator_pattern s \<longrightarrow>
        parse_line p s = Inr (reset_state p) \<and> undetermined (reset_state p))
   \<and> (re_match arch_pattern s \<or> re_match task_type_pattern s \<longrightarrow> parse_line p s = Inr p)
   \<and> (re_match major_vers_pattern s \<longrightarrow>
        parse_line p s = Inr (p\<lparr>state := (state p)\<lparr>major_ver := True\<rparr>\<rparr>))
   \<and> (\<not> re_match description_pattern s \<and> \<not> re_match separator_pattern s
        \<and> \<not> re_match arch_pattern s \<and> \<not> re_match task_type_pattern s
        \<and> \<not> re_match major_vers_pattern s \<longrightarrow>
        parse_line p s = Inl (Diagnostic (line_number p) s ''`      <description>`''))"
    by blast
qed

theorem in_description_lines_witness:
  "in_task
     \<lparr>line_number = 5, state =
       \<lparr>major_ver = False, task = True, arch = True, type = True, description = True,
        release = False, date = False, dependencies = False, base = False, protocol = False\<rparr>\<rparr>
   \<and> re_match description_pattern ''       seven spaces''
   \<and> parse_line
     \<lparr>line_number = 5, state =
       \<lparr>major_ver = False, task = True, arch = True, type = True, description = True,
        release = False, date = False, dependencies = False, base = False, protocol = False\<rparr>\<rparr>
     ''       seven spaces'' = Inr
     \<lparr>line_number = 5, state =
       \<lparr>major_ver = False, task = True, arch = True, type = True, description = True,
        release = False, date = False, dependencies = False, base = False, protocol = False\<rparr>\<rparr>
   \<and> parse_line
     \<lparr>line_number = 5, state =
       \<lparr>major_ver = False, task = True, arch = True, type = True, description = True,
        release = False, date = False, dependencies = False, base = False, protocol = False\<rparr>\<rparr>
     '''' = Inr (init\<lparr>line_number := 5\<rparr>)
   \<and> parse_line
     \<lparr>line_number = 5, state =
       \<lparr>major_ver = False, task = True, arch = True, type = True, description = True,
        release = False, date = False, dependencies = False, base = False, protocol = False\<rparr>\<rparr>
     ''    date: 01.02.24''
     = Inl (Diagnostic 5 ''    date: 01.02.24'' ''`      <description>`'')"
proof -
  let ?p = "\<lparr>line_number = 5, state =
       \<lparr>major_ver = False, task = True, arch = True, type = True, description = True,
        release = False, date = False, dependencies = False, base = False, protocol = False\<rparr>\<rparr>"
  have h: "in_task ?p \<and> arch (state ?p) \<and> type (state ?p) \<and> description (state ?p)"
    by (simp add: in_task_def)
  have m: "re_match description_pattern ''       seven spaces''"
    "re_match separator_pattern ''''"
    "\<not> re_match description_pattern ''    date: 01.02.24''
     \<and> \<not> re_match separator_pattern ''    date: 01.02.24''
     \<and> \<not> re_match arch_pattern ''    date: 01.02.24''
     \<and> \<not> re_match task_type_pattern ''    date: 01.02.24''
     \<and> \<not> re_match major_vers_pattern ''    date: 01.02.24''"
    by code_simp+
  from in_description_lines [of ?p "''       seven spaces''"] h m(1)
  have 1: "parse_line ?p ''       seven spaces'' = Inr ?p" by blast
  from in_description_lines [of ?p "''''"] h m(2)
  have "parse_line ?p '''' = Inr (reset_state ?p)" by blast
  then have 2: "parse_line ?p '''' = Inr (init\<lparr>line_number := 5\<rparr>)"
    by (simp add: reset_state_def init_def)
  from in_description_lines [of ?p "''    date: 01.02.24''"] h m(3)
  have 3: "parse_line ?p ''    date: 01.02.24''
     = Inl (Diagnostic (line_number ?p) ''    date: 01.02.24'' ''`      <description>`'')"
    by blast
  from h m(1) 1 2 3 show ?thesis by simp
qed

text \<open>
  Claim C6, as the specification states it: in a release block a base line is taken at most
  once, and only before the dependencies line. The code reads no flag in the branch of
  \<^verbatim>\<open>base_pattern\<close>: the parser of \<^verbatim>\<open>__init__\<close> reads the block below, which has two base lines
  before the dependencies line and one after it, without a diagnostic, and closes it at the
  empty line.
\<close>

theorem repeated_base_line_accepted:
  "read_lines init 0 [''  - release: 7'', ''    date: 01.02.24'', ''    base: 1'', ''    base: 2'',
      ''    dependencies: []'', ''    base: 3''] = Inr
     \<lparr>line_number = 6, state =
       \<lparr>major_ver = False, task = False, arch = False, type = False, description = False,
        release = True, date = True, dependencies = True, base = True, protocol = False\<rparr>\<rparr>
   \<and> read_lines init 0 [''  - release: 7'', ''    date: 01.02.24'', ''    base: 1'', ''    base: 2'',
      ''    dependencies: []'', ''    base: 3'', ''    protocol: 3'', ''''] = Inr
     \<lparr>line_number = 8, state =
       \<lparr>major_ver = False, task = False, arch = False, type = False, description = False,
        release = False, date = False, dependencies = False, base = False, protocol = False\<rparr>\<rparr>
   \<and> re_match base_pattern ''    base: 1'' \<and> re_match base_pattern ''    base: 2''
   \<and> re_match dependencies_pattern ''    dependencies: []''
   \<and> re_match base_pattern ''    base: 3''"
  by code_simp

text \<open>
  Claim C6, as the code has it. In a release block whose date has been read a base line is
  accepted whenever it arrives, and sets the \<^verbatim>\<open>base\<close> flag. While the dependencies are
  missing, a line that is no major version marker, date line, dependencies line or base line
  gets a diagnostic: the one of the indentation when the line does not start with four
  spaces and a visible character (the empty line and the description part apart), the one
  that asks for the dependencies otherwise.
\<close>

theorem base_and_dependencies_lines:
  "(in_release p \<and> date (state p) \<and> re_match base_pattern s \<longrightarrow>
      parse_line p s = Inr (p\<lparr>state := (state p)\<lparr>base := True\<rparr>\<rparr>))
   \<and> (in_release p \<and> date (state p) \<and> \<not> dependencies (state p)
      \<and> \<not> re_match major_vers_pattern s \<and> \<not> re_match date_pattern s
      \<and> \<not> re_match dependencies_pattern s \<and> \<not> re_match base_pattern s \<longrightarrow>
      parse_line p s = Inl (Diagnostic (line_number p) s
        (if \<not> re_match indent4_pattern s \<and> \<not> type (state p)
            \<and> \<not> re_match separator_pattern s
         then ''indent 4 spaces `    `'' else ''`    dependencies:`'')))"
proof (intro conjI impI)
  assume "in_release p \<and> date (state p) \<and> re_match base_pattern s"
  then show "parse_line p s = Inr (p\<lparr>state := (state p)\<lparr>base := True\<rparr>\<rparr>)"
    by (simp add: release_base in_release_def)
next
  assume "in_release p \<and> date (state p) \<and> \<not> dependencies (state p)
      \<and> \<not> re_match major_vers_pattern s \<and> \<not> re_match date_pattern s
      \<and> \<not> re_match dependencies_pattern s \<and> \<not> re_match base_pattern s"
  then show "parse_line p s = Inl (Diagnostic (line_number p) s
        (if \<not> re_match indent4_pattern s \<and> \<not> type (state p)
            \<and> \<not> re_match separator_pattern s
         then ''indent 4 spaces `    `'' else ''`    dependencies:`''))"
    by (simp add: parse_line_def parse_release_def raise_error_def in_release_def)
qed

theorem base_and_dependencies_lines_witness:
  "in_release
     \<lparr>line_number = 4, state =
       \<lparr>major_ver = False, task = False, arch = False, type = False, description = False,
        release = True, date = True, dependencies = True, base = True, protocol = False\<rparr>\<rparr>
   \<and> re_match base_pattern ''    base: 3''
   \<and> parse_line
     \<lparr>line_number = 4, state =
       \<lparr>major_ver = False, task = False, arch = False, type = False, description = False,
        release = True, date = True, dependencies = True, base = True, protocol = False\<rparr>\<rparr>
     ''    base: 3'' = Inr
     \<lparr>line_number = 4, state =
       \<lparr>major_ver = False, task = False, arch = False, type = False, description = False,
        release = True, date = True, dependencies = True, base = True, protocol = False\<rparr>\<rparr>
   \<and> parse_line
     \<lparr>line_number = 3, state =
       \<lparr>major_ver = False, task = False, arch = False, type = False, description = False,
        release = True, date = True, dependencies = False, base = False, protocol = False\<rparr>\<rparr>
     ''    protocol: 3'' = Inl (Diagnostic 3 ''    protocol: 3'' ''`    dependencies:`'')
   \<and> parse_line
     \<lparr>line_number = 3, state =
       \<lparr>major_ver = False, task = False, arch = False, type = False, description = False,
        release = True, date = True, dependencies = False, base = False, protocol = False\<rparr>\<rparr>
     ''   protocol: 3'' = Inl (Diagnostic 3 ''   protocol: 3'' ''indent 4 spaces `    `'')"
proof -
  let ?p = "\<lparr>line_number = 4, state =
       \<lparr>major_ver = False, task = False, arch = False, type = False, description = False,
        release = True, date = True, dependencies = True, base = True, protocol = False\<rparr>\<rparr>"
  let ?q = "\<lparr>line_number = 3, state =
       \<lparr>major_ver = False, task = False, arch = False, type = False, description = False,
        release = True, date = True, dependencies = False, base = False, protocol = False\<rparr>\<rparr>"
  have hp: "in_release ?p" "date (state ?p)" by (simp_all add: in_release_def)
  have hq: "in_release ?q" "date (state ?q)" "\<not> dependencies (state ?q)" "\<not> type (state ?q)"
    by (simp_all add: in_release_def)
  have m: "re_match base_pattern ''    base: 3''"
    "\<not> re_match major_vers_pattern ''    protocol: 3'' \<and> \<not> re_match date_pattern ''    protocol: 3''
      \<and> \<not> re_match dependencies_pattern ''    protocol: 3''
      \<and> \<not> re_match base_pattern ''    protocol: 3''"
    "re_match indent4_pattern ''    protocol: 3''"
    "\<not> re_match major_vers_pattern ''   protocol: 3'' \<and> \<not> re_match date_pattern ''   protocol: 3''
      \<and> \<not> re_match dependencies_pattern ''   protocol: 3''
      \<and> \<not> re_match base_pattern ''   protocol: 3''"
    "\<not> re_match indent4_pattern ''   protocol: 3''"
    "\<not> re_match separator_pattern ''   protocol: 3''"
    by code_simp+
  from base_and_dependencies_lines [of ?p "''    base: 3''"] hp m(1)
  have 1: "parse_line ?p ''    base: 3'' = Inr ?p" by simp
  from base_and_dependencies_lines [of ?q "''    protocol: 3''"] hq m(2,3)
  have 2: "parse_line ?q ''    protocol: 3''
      = Inl (Diagnostic 3 ''    protocol: 3'' ''`    dependencies:`'')" by simp
  from base_and_dependencies_lines [of ?q "''   protocol: 3''"] hq m(4,5,6)
  have 3: "parse_line ?q ''   protocol: 3''
      = Inl (Diagnostic 3 ''   protocol: 3'' ''indent 4 spaces `    `'')" by simp
  from hp m(1) 1 2 3 show ?thesis by blast
qed

text \<open>A line of \<open>k\<close> spaces and then another character starts with four spaces and a visible
  character only if \<open>k\<close> is 4; with a different width it is neither a separator nor, unless
  the width is 0, a major version marker.\<close>

lemma leading_spaces_indent4:
  assumes "re_match indent4_pattern (replicate k (CHR '' '') @ c # t)" and "c \<noteq> CHR '' ''"
  shows "k = 4"
proof -
  let ?P = "\<lambda>x. x = CHR '' ''"
  from assms(1) obtain c' t' where e: "replicate k (CHR '' '') @ c # t = ''    '' @ c' # t'"
    and c': "\<not> is_space c'" by (auto simp: indent4_iff)
  from c' have n: "c' \<noteq> CHR '' ''" by (auto simp: is_space_def)
  have "takeWhile ?P (replicate k (CHR '' '') @ c # t) = replicate k (CHR '' '')"
    using assms(2) by (induction k) simp_all
  moreover have "takeWhile ?P (''    '' @ c' # t') = ''    ''" using n by simp
  ultimately have "replicate k (CHR '' '') = ''    ''" using e by simp
  then have "length (replicate k (CHR '' '')) = length ''    ''" by (rule arg_cong)
  then show ?thesis by simp
qed

lemma wrong_width_line:
  assumes k: "k \<noteq> 4" and c: "\<not> is_space c"
    and m: "k = 0 \<longrightarrow> \<not> re_match major_vers_pattern (c # t)"
  shows "\<not> re_match major_vers_pattern (replicate k (CHR '' '') @ c # t)
    \<and> \<not> re_match separator_pattern (replicate k (CHR '' '') @ c # t)
    \<and> \<not> re_match indent4_pattern (replicate k (CHR '' '') @ c # t)"
proof (intro conjI)
  from c have n: "c \<noteq> CHR '' ''" "c \<noteq> CHR 0x0A" by (auto simp: is_space_def)
  show "\<not> re_match major_vers_pattern (replicate k (CHR '' '') @ c # t)"
  proof (cases k)
    case 0
    with m show ?thesis by simp
  next
    case (Suc j)
    then have "prefix '' '' (replicate k (CHR '' '') @ c # t)" by simp
    then show ?thesis by (rule major_not_space)
  qed
  show "\<not> re_match separator_pattern (replicate k (CHR '' '') @ c # t)"
    using n by (cases k) (simp_all add: separator_iff)
  show "\<not> re_match indent4_pattern (replicate k (CHR '' '') @ c # t)"
    using leading_spaces_indent4 [of k c t] k n(1) by blast
qed

text \<open>
  Claim C8. Inside a task or release block, where a field line is due (no type line has
  been read, so the line is not part of a description), a line whose leading spaces are
  not four, \<open>k\<close> spaces and then a visible character with \<open>k\<close> other than 4, gets the
  indentation diagnostic, numbered with its own position in the stream, whichever field
  is due: the check is the first statement of \<^verbatim>\<open>parse_task\<close> and of \<^verbatim>\<open>parse_release\<close>. A major
  version marker is recorded by \<^verbatim>\<open>parse_line\<close> before the block is looked at, so a line
  without leading spaces is supposed not to be one. The first part states the check for
  every line that is no marker, is not empty and does not start with four spaces and a
  visible character.
\<close>

theorem indentation_diagnostic:
  "((in_task p \<or> in_release p) \<and> \<not> type (state p) \<and> \<not> re_match major_vers_pattern s
      \<and> \<not> re_match separator_pattern s \<and> \<not> re_match indent4_pattern s \<longrightarrow>
      parse_line p s = Inl (Diagnostic (line_number p) s ''indent 4 spaces `    `''))
   \<and> (read_lines init 0 ls = Inr p \<and> (in_task p \<or> in_release p) \<and> \<not> type (state p)
      \<and> k \<noteq> 4 \<and> \<not> is_space c \<and> (k = 0 \<longrightarrow> \<not> re_match major_vers_pattern (c # t)) \<longrightarrow>
      read_lines init 0 (ls @ (replicate k (CHR '' '') @ c # t) # rest)
        = Inl (Diagnostic (int (length ls) + 1) (replicate k (CHR '' '') @ c # t)
            ''indent 4 spaces `    `''))
   \<and> ''indent 4 spaces `    `'' \<notin> {''`    arch: {stm32,avr,at32}`'',
        ''`    {feature,bug,internal}: |`'', ''`      <description>`'', ''`    date: <dd.mm.yy>`'',
        ''`    dependencies:`'', ''`    protocol: <number-of-protocol>`''}"
proof -
  have a: "parse_line q s = Inl (Diagnostic (line_number q) s ''indent 4 spaces `    `'')"
    if "in_task q \<or> in_release q" "\<not> type (state q)" "\<not> re_match major_vers_pattern s"
      "\<not> re_match separator_pattern s" "\<not> re_match indent4_pattern s" for q s
    using that
    by (auto simp: parse_line_def parse_task_def parse_release_def raise_error_def
        in_task_def in_release_def)
  have b: "read_lines init 0 (ls @ (replicate k (CHR '' '') @ c # t) # rest)
        = Inl (Diagnostic (int (length ls) + 1) (replicate k (CHR '' '') @ c # t)
            ''indent 4 spaces `    `'')"
    if r: "read_lines init 0 ls = Inr p" and h: "in_task p \<or> in_release p" "\<not> type (state p)"
      and w: "k \<noteq> 4" "\<not> is_space c" "k = 0 \<longrightarrow> \<not> re_match major_vers_pattern (c # t)"
  proof -
    let ?q = "set_current_line_number p (int (length ls) + 1)"
    let ?s = "replicate k (CHR '' '') @ c # t"
    from h have hq: "in_task ?q \<or> in_release ?q" "\<not> type (state ?q)"
      by (simp_all add: in_task_def in_release_def)
    from wrong_width_line [OF w]
    have l: "\<not> re_match major_vers_pattern ?s" "\<not> re_match separator_pattern ?s"
      "\<not> re_match indent4_pattern ?s" by simp_all
    from a [OF hq l]
    have "parse_line ?q ?s = Inl (Diagnostic (int (length ls) + 1) ?s ''indent 4 spaces `    `'')"
      by simp
    with r show ?thesis by (rule run_stops_at)
  qed
  have c: "''indent 4 spaces `    `'' \<notin> {''`    arch: {stm32,avr,at32}`'',
        ''`    {feature,bug,internal}: |`'', ''`      <description>`'', ''`    date: <dd.mm.yy>`'',
        ''`    dependencies:`'', ''`    protocol: <number-of-protocol>`''}"
    by simp
  from a [of p s] b c show ?thesis by blast
qed

theorem indentation_diagnostic_witness:
  "read_lines init 0 [''1:'', ''  - task: http://tracker/123''] = Inr
     \<lparr>line_number = 2, state =
       \<lparr>major_ver = True, task = True, arch = False, type = False, description = False,
        release = False, date = False, dependencies = False, base = False, protocol = False\<rparr>\<rparr>
   \<and> (3::nat) \<noteq> 4 \<and> \<not> is_space (CHR ''a'')
   \<and> read_lines init 0 [''1:'', ''  - task: http://tracker/123'', ''   arch: avr'', ''    bug: |'']
       = Inl (Diagnostic 3 ''   arch: avr'' ''indent 4 spaces `    `'')
   \<and> parse_line
     \<lparr>line_number = 3, state =
       \<lparr>major_ver = False, task = False, arch = False, type = False, description = False,
        release = True, date = True, dependencies = False, base = False, protocol = False\<rparr>\<rparr>
     ''     dependencies:'' = Inl (Diagnostic 3 ''     dependencies:'' ''indent 4 spaces `    `'')"
proof -
  let ?p = "\<lparr>line_number = 2, state =
       \<lparr>major_ver = True, task = True, arch = False, type = False, description = False,
        release = False, date = False, dependencies = False, base = False, protocol = False\<rparr>\<rparr>"
  let ?q = "\<lparr>line_number = 3, state =
       \<lparr>major_ver = False, task = False, arch = False, type = False, description = False,
        release = True, date = True, dependencies = False, base = False, protocol = False\<rparr>\<rparr>"
  have r: "read_lines init 0 [''1:'', ''  - task: http://tracker/123''] = Inr ?p" by code_simp
  have hp: "in_task ?p" "\<not> type (state ?p)" by (simp_all add: in_task_def)
  have hq: "in_release ?q" "\<not> type (state ?q)" by (simp_all add: in_release_def)
  have k: "(3::nat) \<noteq> 4" "\<not> is_space (CHR ''a'')" by (simp_all add: is_space_def)
  have m: "\<not> re_match major_vers_pattern ''     dependencies:''
      \<and> \<not> re_match separator_pattern ''     dependencies:''
      \<and> \<not> re_match indent4_pattern ''     dependencies:''"
    by code_simp
  from indentation_diagnostic [of ?p "[]" "[''1:'', ''  - task: http://tracker/123'']" 3 "CHR ''a''" "''rch: avr''"
      "[''    bug: |'']"] r hp k
  have 1: "read_lines init 0 [''1:'', ''  - task: http://tracker/123'', ''   arch: avr'', ''    bug: |'']
       = Inl (Diagnostic 3 ''   arch: avr'' ''indent 4 spaces `    `'')"
    by (simp add: numeral_3_eq_3)
  from indentation_diagnostic [of ?q "''     dependencies:''"] hq m
  have 2: "parse_line ?q ''     dependencies:''
      = Inl (Diagnostic 3 ''     dependencies:'' ''indent 4 spaces `    `'')" by simp
  from r k 1 2 show ?thesis by blast
qed

end
